theory Spec2Isabelle
  imports Complex_Main "HOL-Library.Char_ord" "HOL-Library.List_Lexorder"
begin

section \<open>Time\<close>

text \<open>
  A Go \<open>time.Time\<close> is modelled as the number of nanoseconds since the zero instant
  (January 1, year 1, 00:00:00 UTC), so that \<open>IsZero\<close> is equality with 0.  A
  \<open>time.Duration\<close> is a signed 64-bit count of nanoseconds; \<open>Time.Sub\<close> saturates at
  the largest and smallest duration, which is written out.  Every read of the wall
  clock (\<open>time.Now()\<close>, \<open>time.Since\<close>) is an explicit argument of the function that
  performs it.
\<close>

type_synonym time = int
type_synonym duration = int

definition maxDuration :: duration where
  "maxDuration = 2 ^ 63 - 1"

definition minDuration :: duration where
  "minDuration = - (2 ^ 63)"

definition Second :: duration where
  "Second = 1000000000"

definition Minute :: duration where
  "Minute = 60 * Second"

definition IsZero :: "time \<Rightarrow> bool" where
  "IsZero t = (t = 0)"

definition Sub :: "time \<Rightarrow> time \<Rightarrow> duration" where
  "Sub t u =
     (if t - u > maxDuration then maxDuration
      else if t - u < minDuration then minDuration
      else t - u)"

text \<open>\<open>time.Since(t)\<close> is \<open>time.Now().Sub(t)\<close>; the first argument is the clock reading.\<close>

definition Since :: "time \<Rightarrow> time \<Rightarrow> duration" where
  "Since now t = Sub now t"

definition Add :: "time \<Rightarrow> duration \<Rightarrow> time" where
  "Add t d = t + d"

definition After :: "time \<Rightarrow> time \<Rightarrow> bool" where
  "After t u = (u < t)"

definition Before :: "time \<Rightarrow> time \<Rightarrow> bool" where
  "Before t u = (t < u)"

section \<open>Data model (pool/core)\<close>

type_synonym error = string

datatype ShareStatus = ShareAccepted | ShareDuplicate | ShareStale | ShareInvalid

text \<open>
  \<open>Diff\<close> is a float64 in the source; no function of the pipeline reads it, it is
  carried as a real number.
\<close>

record Share =
  ID :: string
  JobID :: string
  WorkerID :: string
  Nonce :: string
  Hash :: string
  Diff :: real
  Timestamp :: time
  IP :: string

record ShareResult =
  Status :: ShareStatus
  Description :: string
  Error :: "error option"
  Valid :: bool

record Job =
  job_ID :: string
  Data :: string
  Target :: string
  CreatedAt :: time
  ExpiresAt :: time
  BlockHeight :: int
  Active :: bool

text \<open>
  \<open>Worker\<close>.  The maps of the pool hold pointers to workers and to jobs; the registering
  functions refuse nil, so a key that is present holds an object.
\<close>

record Worker =
  worker_ID :: string
  connected :: bool
  worker_job :: "Job option"
  worker_shares :: "Share list"

definition NewWorker :: "string \<Rightarrow> Worker" where
  "NewWorker w = \<lparr>worker_ID = w, connected = True, worker_job = None, worker_shares = []\<rparr>"

definition IsActive :: "Worker \<Rightarrow> bool" where
  "IsActive w = connected w"

definition Disconnect :: "Worker \<Rightarrow> Worker" where
  "Disconnect w = w\<lparr>connected := False\<rparr>"

text \<open>
  \<open>PoolCore\<close>: the four maps and the two durations.  The mutexes are not modelled: each
  operation below is one atomic step on the record.
\<close>

record PoolCore =
  workers :: "string \<rightharpoonup> Worker"
  activeJobs :: "string \<rightharpoonup> Job"
  workerShares :: "string \<rightharpoonup> Share list"
  lastSubmission :: "string \<rightharpoonup> time"
  ttlJob :: duration
  interval :: duration

definition InitPool :: "duration \<Rightarrow> duration \<Rightarrow> PoolCore" where
  "InitPool ttl rate =
     \<lparr>workers = Map.empty, activeJobs = Map.empty, workerShares = Map.empty,
      lastSubmission = Map.empty, ttlJob = ttl, interval = rate\<rparr>"

text \<open>\<open>append(m[k], s)\<close> on a Go map: a missing key reads as the empty slice.\<close>

definition shares_of :: "PoolCore \<Rightarrow> string \<Rightarrow> Share list" where
  "shares_of pc wid = (case workerShares pc wid of None \<Rightarrow> [] | Some l \<Rightarrow> l)"

text \<open>
  \<open>PoolCore.SubmitShare(wid, s)\<close>.  The share pointer may be nil (\<open>None\<close>).  The two
  clock readings are \<open>at_job\<close> (inside \<open>time.Since(job.CreatedAt)\<close>) and \<open>now\<close>
  (\<open>time.Now()\<close>, read before the shares lock is taken).  The result is the returned
  error (\<open>None\<close> for nil) and the pool afterwards.
\<close>

definition SubmitShare ::
  "PoolCore \<Rightarrow> string \<Rightarrow> Share option \<Rightarrow> time \<Rightarrow> time \<Rightarrow> error option \<times> PoolCore" where
  "SubmitShare pc wid s at_job now =
     (case s of
        None \<Rightarrow> (Some ''nil share'', pc)
      | Some sh \<Rightarrow>
          (case activeJobs pc (JobID sh) of
             None \<Rightarrow> (Some ''invalid or expired job'', pc)
           | Some job \<Rightarrow>
               if Since at_job (CreatedAt job) > ttlJob pc
               then (Some ''invalid or expired job'', pc)
               else
                 (case workers pc wid of
                    None \<Rightarrow> (Some ''worker not active'', pc)
                  | Some worker \<Rightarrow>
                      if \<not> IsActive worker then (Some ''worker not active'', pc)
                      else if (case lastSubmission pc wid of
                                 None \<Rightarrow> False
                               | Some prev \<Rightarrow> Sub now prev < interval pc)
                      then (Some ''rate limit exceeded'', pc)
                      else
                        (None,
                         pc\<lparr>lastSubmission := (lastSubmission pc)(wid \<mapsto> now),
                            workerShares :=
                              (workerShares pc)(wid \<mapsto> shares_of pc wid @ [sh])\<rparr>))))"

text \<open>
  The other operations of \<open>PoolCore\<close>.  \<open>PurgeWorker\<close> also forgets the worker's shares
  and its last submission.  \<open>removeExpiredJobs\<close> deletes the jobs created before
  \<open>now - ttlJob\<close>; \<open>DispatchJob\<close> refuses nil and the empty id and runs it after the insert.
\<close>

definition AppendWorker :: "PoolCore \<Rightarrow> string \<Rightarrow> Worker option \<Rightarrow> error option \<times> PoolCore" where
  "AppendWorker pc wid wrk =
     (case wrk of
        None \<Rightarrow> (Some ''worker invalid'', pc)
      | Some w \<Rightarrow>
          if wid = '''' then (Some ''worker invalid'', pc)
          else (None, pc\<lparr>workers := (workers pc)(wid \<mapsto> w)\<rparr>))"

definition PurgeWorker :: "PoolCore \<Rightarrow> string \<Rightarrow> PoolCore" where
  "PurgeWorker pc wid =
     pc\<lparr>workers := (workers pc)(wid := None),
        workerShares := (workerShares pc)(wid := None),
        lastSubmission := (lastSubmission pc)(wid := None)\<rparr>"

definition removeExpiredJobs :: "time \<Rightarrow> PoolCore \<Rightarrow> PoolCore" where
  "removeExpiredJobs now pc =
     pc\<lparr>activeJobs :=
          (\<lambda>k. case activeJobs pc k of
                  None \<Rightarrow> None
                | Some job \<Rightarrow>
                    if Before (CreatedAt job) (Add now (- ttlJob pc)) then None
                    else Some job)\<rparr>"

definition DispatchJob :: "time \<Rightarrow> PoolCore \<Rightarrow> Job option \<Rightarrow> PoolCore" where
  "DispatchJob now pc j =
     (case j of
        None \<Rightarrow> pc
      | Some job \<Rightarrow>
          if job_ID job = '''' then pc
          else removeExpiredJobs now (pc\<lparr>activeJobs := (activeJobs pc)(job_ID job \<mapsto> job)\<rparr>))"

text \<open>
  Concurrent submitters.  The job and worker maps are only read by \<open>SubmitShare\<close>, and
  the rate check and both writes happen inside one critical section, so any interleaving
  of concurrent calls is a sequence of the atomic steps above, taken in the order in
  which the callers enter the critical section.  Each caller read its \<open>now\<close> before
  entering, so the readings need not increase along the sequence.
\<close>

record submission =
  sub_wid :: string
  sub_share :: "Share option"
  sub_at_job :: time
  sub_now :: time





section \<open>Fraud inspector (pool/security)\<close>

definition windowSpan :: duration where
  "windowSpan = 15 * Second"

definition maxRequestsPerSubnet :: nat where
  "maxRequestsPerSubnet = 20"

definition nonceReuseWarn :: nat where
  "nonceReuseWarn = 3"

definition nonceReuseBlock :: nat where
  "nonceReuseBlock = 10"

definition greylistTimeout :: duration where
  "greylistTimeout = 3 * Minute"

definition clockSkewTolerance :: duration where
  "clockSkewTolerance = 2 * Minute"

datatype ThreatLevel = NoThreat | Warn | Block

record Verdict =
  Flagged :: bool
  Reason :: string
  Level :: ThreatLevel

text \<open>
  The inspector's \<open>state\<close>.  The structs \<open>record\<close> and \<open>usage\<close> of the source hold one
  slice of times each and are modelled as that slice.  A key that was never written is
  absent (\<open>None\<close>); reading it in Go gives the zero value, an empty slice.
\<close>

record state =
  Greylist :: "string \<rightharpoonup> time"
  Subnets :: "string \<rightharpoonup> time list"
  Tokens :: "string \<rightharpoonup> time list"
  NonceMap :: "string \<rightharpoonup> (string \<rightharpoonup> time)"

definition empty_state :: state where
  "empty_state = \<lparr>Greylist = Map.empty, Subnets = Map.empty, Tokens = Map.empty,
                   NonceMap = Map.empty\<rparr>"

text \<open>
  \<open>globalInspector\<close> is nil until \<open>LaunchInspector\<close> has run once; afterwards it is
  never replaced.
\<close>

definition LaunchInspector :: "state option \<Rightarrow> state" where
  "LaunchInspector g = (case g of None \<Rightarrow> empty_state | Some st \<Rightarrow> st)"

definition slice_of :: "(string \<rightharpoonup> time list) \<Rightarrow> string \<Rightarrow> time list" where
  "slice_of m k = (case m k of None \<Rightarrow> [] | Some ts \<Rightarrow> ts)"

definition pruneOld :: "time list \<Rightarrow> time \<Rightarrow> time list" where
  "pruneOld ts now = filter (\<lambda>t. Sub now t \<le> windowSpan) ts"

text \<open>
  \<open>extractSubnet\<close>.  The result of \<open>net.ParseIP(strings.TrimSpace(ipStr))\<close> is a
  parameter \<open>parseIP\<close> of the model: \<open>None\<close> for nil, \<open>V4 a b c d\<close> when \<open>To4()\<close> is not
  nil (the four bytes), \<open>V6 s\<close> otherwise, with \<open>s\<close> the text \<open>ip.String()\<close> gives.
\<close>

datatype ipaddr = V4 nat nat nat nat | V6 string

fun decimal :: "nat \<Rightarrow> string" where
  "decimal n =
     (if n < 10 then [''0123456789'' ! n]
      else decimal (n div 10) @ [''0123456789'' ! (n mod 10)])"

definition dotted :: "nat \<Rightarrow> nat \<Rightarrow> nat \<Rightarrow> nat \<Rightarrow> string" where
  "dotted a b c d = decimal a @ ''.'' @ decimal b @ ''.'' @ decimal c @ ''.'' @ decimal d"

definition extractSubnet :: "(string \<Rightarrow> ipaddr option) \<Rightarrow> string \<Rightarrow> string" where
  "extractSubnet parseIP ipStr =
     (case parseIP ipStr of
        None \<Rightarrow> ipStr
      | Some (V4 a b c d) \<Rightarrow> dotted a b c 0
      | Some (V6 s) \<Rightarrow> s)"

text \<open>\<open>Inspector.Check(subnet)\<close>; \<open>now\<close> is the reading inside \<open>time.Since\<close>.\<close>

definition Check :: "state \<Rightarrow> time \<Rightarrow> string \<Rightarrow> bool" where
  "Check st now subnet =
     (case Greylist st subnet of
        None \<Rightarrow> False
      | Some added \<Rightarrow> Since now added \<le> greylistTimeout)"

text \<open>
  \<open>Inspector.LogRequest(ipOrSubnet, token)\<close>.  It extracts the subnet again from its
  first argument, reads the clock itself, and writes both windows before it decides.
\<close>

definition LogRequest ::
  "(string \<Rightarrow> ipaddr option) \<Rightarrow> time \<Rightarrow> state \<Rightarrow> string \<Rightarrow> string \<Rightarrow> ThreatLevel \<times> state" where
  "LogRequest parseIP now st ipOrSubnet token =
     (let subnet = extractSubnet parseIP ipOrSubnet;
          rec = pruneOld (slice_of (Subnets st) subnet) now @ [now];
          u = pruneOld (slice_of (Tokens st) token) now @ [now];
          st' = st\<lparr>Subnets := (Subnets st)(subnet \<mapsto> rec),
                   Tokens := (Tokens st)(token \<mapsto> u)\<rparr>
      in if length rec > maxRequestsPerSubnet
         then (Block, st'\<lparr>Greylist := (Greylist st')(subnet \<mapsto> now)\<rparr>)
         else if length u \<ge> nonceReuseWarn \<and> length u < nonceReuseBlock then (Warn, st')
         else if length u \<ge> nonceReuseBlock then (Block, st')
         else (NoThreat, st'))"

text \<open>
  \<open>Inspector.checkNonceReuse(minerID, nonce, now)\<close>: the miner's map is created when
  missing, entries older than the window are deleted, the nonce is looked up and then
  recorded.
\<close>

definition nonces_of :: "state \<Rightarrow> string \<Rightarrow> (string \<rightharpoonup> time)" where
  "nonces_of st minerID = (case NonceMap st minerID of None \<Rightarrow> Map.empty | Some m \<Rightarrow> m)"

definition prune_nonces :: "(string \<rightharpoonup> time) \<Rightarrow> time \<Rightarrow> (string \<rightharpoonup> time)" where
  "prune_nonces m now =
     (\<lambda>n. case m n of
             None \<Rightarrow> None
           | Some t \<Rightarrow> if Sub now t > windowSpan then None else Some t)"

definition checkNonceReuse ::
  "state \<Rightarrow> string \<Rightarrow> string \<Rightarrow> time \<Rightarrow> (ThreatLevel \<times> string) \<times> state" where
  "checkNonceReuse st minerID nonce now =
     (let m = prune_nonces (nonces_of st minerID) now;
          seen = (m nonce \<noteq> None);
          st' = st\<lparr>NonceMap := (NonceMap st)(minerID \<mapsto> m(nonce \<mapsto> now))\<rparr>
      in if \<not> seen then ((NoThreat, ''''), st')
         else ((Warn, ''nonce reuse by miner within window''), st'))"

text \<open>\<open>Inspector.markToken(token, now)\<close>.\<close>

definition markToken ::
  "state \<Rightarrow> string \<Rightarrow> time \<Rightarrow> (ThreatLevel \<times> string) \<times> state" where
  "markToken st token now =
     (if token = '''' then ((NoThreat, ''''), st)
      else
        let u = pruneOld (slice_of (Tokens st) token) now @ [now];
            st' = st\<lparr>Tokens := (Tokens st)(token \<mapsto> u)\<rparr>
        in if length u \<ge> nonceReuseBlock
           then ((Block, ''hash reuse over hard threshold''), st')
           else if length u \<ge> nonceReuseWarn
           then ((Warn, ''hash reuse approaching threshold''), st')
           else ((NoThreat, ''''), st'))"

text \<open>
  \<open>EvaluateShare(minerID, ip, nonce, hash, ts)\<close>.  Three clock readings: \<open>now\<close> (its own
  \<open>time.Now()\<close>), \<open>at_log\<close> (the one \<open>LogRequest\<close> takes) and \<open>at_check\<close> (the one \<open>Check\<close>
  takes).  \<open>g\<close> is \<open>globalInspector\<close> before the call; the state returned is the
  inspector's afterwards.
\<close>

definition EvaluateShare ::
  "(string \<Rightarrow> ipaddr option) \<Rightarrow> time \<Rightarrow> time \<Rightarrow> time \<Rightarrow> state option \<Rightarrow>
   string \<Rightarrow> string \<Rightarrow> string \<Rightarrow> string \<Rightarrow> time \<Rightarrow> Verdict \<times> state" where
  "EvaluateShare parseIP now at_log at_check g minerID ip nonce hash ts =
     (let st = LaunchInspector g in
      if IsZero ts \<or> After ts (Add now clockSkewTolerance) \<or> Sub now ts > clockSkewTolerance
      then (\<lparr>Flagged = True, Reason = ''clock skew out of tolerance'', Level = Warn\<rparr>, st)
      else
        let subnet = extractSubnet parseIP ip in
        (case LogRequest parseIP at_log st subnet nonce of (lvl, st1) \<Rightarrow>
           if lvl = Block
           then (\<lparr>Flagged = True, Reason = ''rate limit subnet/24 exceeded (greylisted)'',
                  Level = Block\<rparr>, st1)
           else
             (case checkNonceReuse st1 minerID nonce now of ((nlvl, nreason), st2) \<Rightarrow>
                if nlvl = Block then (\<lparr>Flagged = True, Reason = nreason, Level = Block\<rparr>, st2)
                else if nlvl = Warn
                then (\<lparr>Flagged = True, Reason = nreason, Level = Warn\<rparr>, st2)
                else
                  (case markToken st2 hash now of ((hlvl, hreason), st3) \<Rightarrow>
                     if hlvl = Block
                     then (\<lparr>Flagged = True, Reason = hreason, Level = Block\<rparr>, st3)
                     else if hlvl = Warn
                     then (\<lparr>Flagged = True, Reason = hreason, Level = Warn\<rparr>, st3)
                     else if Check st3 at_check subnet
                     then (\<lparr>Flagged = True, Reason = ''subnet greylisted'', Level = Block\<rparr>,
                           st3)
                     else (\<lparr>Flagged = False, Reason = '''', Level = NoThreat\<rparr>, st3)))))"

text \<open>
  \<open>IsFraudulentNonce(minerID, nonce)\<close>: the miner id is passed as the address, the hash
  is empty and the timestamp is a fresh \<open>time.Now()\<close> (\<open>ts\<close>).
\<close>

definition IsFraudulentNonce ::
  "(string \<Rightarrow> ipaddr option) \<Rightarrow> time \<Rightarrow> time \<Rightarrow> time \<Rightarrow> time \<Rightarrow> state option \<Rightarrow>
   string \<Rightarrow> string \<Rightarrow> bool \<times> state" where
  "IsFraudulentNonce parseIP ts now at_log at_check g minerID nonce =
     (case EvaluateShare parseIP now at_log at_check (Some (LaunchInspector g))
             minerID minerID nonce '''' ts of
        (verdict, st) \<Rightarrow> (Level verdict = Block, st))"

text \<open>
  One iteration of the loop of \<open>Inspector.cleanGreylist\<close>, which a ticker starts every
  90 seconds: greylist entries older than the timeout are deleted.  \<open>sweeps\<close> runs the
  iterations for a list of tick times.
\<close>

definition cleanGreylist :: "time \<Rightarrow> state \<Rightarrow> state" where
  "cleanGreylist now st =
     st\<lparr>Greylist :=
          (\<lambda>subnet. case Greylist st subnet of
                       None \<Rightarrow> None
                     | Some added \<Rightarrow>
                         if Sub now added > greylistTimeout then None else Some added)\<rparr>"

definition sweepInterval :: duration where
  "sweepInterval = 90 * Second"

fun sweeps :: "time list \<Rightarrow> state \<Rightarrow> state" where
  "sweeps [] st = st"
| "sweeps (t # ts) st = sweeps ts (cleanGreylist t st)"

section \<open>Hashing and the share validator (pool/core)\<close>

text \<open>
  \<open>hashJob\<close> and \<open>calculateHash\<close> both write \<open>data + nonce\<close> into SHA-256 and return
  the lower-case hex of the digest.  The digest function of the Go library,
  \<open>hex.EncodeToString \<circ> sha256\<close>, is the parameter \<open>h\<close>.  Go compares strings byte by
  byte, a proper prefix being smaller: the lexicographic order of \<open>string\<close>.
\<close>

definition hashJob :: "(string \<Rightarrow> string) \<Rightarrow> string \<Rightarrow> string \<Rightarrow> string" where
  "hashJob h data nonce = h (data @ nonce)"

definition checkDifficulty :: "string \<Rightarrow> string \<Rightarrow> bool" where
  "checkDifficulty hash target = (hash < target)"

definition calculateHash :: "(string \<Rightarrow> string) \<Rightarrow> string \<Rightarrow> string \<Rightarrow> string" where
  "calculateHash h data nonce = h (data @ nonce)"

definition IsValidHash :: "(string \<Rightarrow> string) \<Rightarrow> Share \<Rightarrow> string \<Rightarrow> bool" where
  "IsValidHash h share target = (calculateHash h (JobID share) (Nonce share) < target)"

text \<open>
  \<open>JobManager\<close> (job.go) keeps jobs of its own.  \<open>ValidateShare\<close> reads the clock once;
  \<open>uuid.Parse\<close> of the external library is the parameter \<open>validUUID\<close>; the slice
  \<open>jobID[4:]\<close> panics on an id shorter than four bytes, which is the result \<open>None\<close>.
  \<open>CleanupExpiredJobs\<close> deletes the jobs whose \<open>ExpiresAt\<close> the clock has passed.
\<close>

record JobManager =
  jobs :: "string \<rightharpoonup> Job"
  timeout :: duration

definition JobManager_ValidateShare ::
  "(string \<Rightarrow> string) \<Rightarrow> (string \<Rightarrow> bool) \<Rightarrow> time \<Rightarrow> JobManager \<Rightarrow>
   string \<Rightarrow> string \<Rightarrow> string \<Rightarrow> bool option" where
  "JobManager_ValidateShare h validUUID now jm jobID nonce result =
     (case jobs jm jobID of
        None \<Rightarrow> Some False
      | Some job \<Rightarrow>
          if \<not> Active job then Some False
          else if After now (ExpiresAt job) then Some False
          else if length jobID < 4 then None
          else if \<not> validUUID (drop 4 jobID) then Some False
          else if hashJob h (Data job) nonce \<noteq> result then Some False
          else if \<not> checkDifficulty (hashJob h (Data job) nonce) (Target job) then Some False
          else Some True)"

definition CleanupExpiredJobs :: "time \<Rightarrow> JobManager \<Rightarrow> JobManager" where
  "CleanupExpiredJobs now jm =
     jm\<lparr>jobs :=
          (\<lambda>k. case jobs jm k of
                  None \<Rightarrow> None
                | Some job \<Rightarrow> if After now (ExpiresAt job) then None else Some job)\<rparr>"

definition IsStale :: "time \<Rightarrow> Share \<Rightarrow> duration \<Rightarrow> bool" where
  "IsStale now share ttl = (Since now (Timestamp share) > ttl)"

text \<open>
  The \<open>ShareStore\<close> interface.  What stands behind it (a database, a map) is a state of
  type \<open>'st\<close> that each call may change; a call returns its Go results and the new
  state.  An implementation may read the clock, so each call is given the reading it
  would take.  \<open>store_call\<close> records which calls a function made.
\<close>

record 'st ShareStore =
  Exists :: "time \<Rightarrow> string \<Rightarrow> 'st \<Rightarrow> (bool \<times> error option) \<times> 'st"
  Save :: "time \<Rightarrow> Share \<Rightarrow> 'st \<Rightarrow> error option \<times> 'st"

datatype store_call = ExistsCall string | SaveCall Share

text \<open>
  \<open>internalStore\<close>, the in-memory implementation of the interface.  \<open>cleanup\<close>, which
  \<open>Exists\<close> runs first, reads the clock; \<open>Save\<close> does not.
\<close>

record internalStore =
  entries :: "string \<rightharpoonup> Share"
  ttl :: duration

definition newInternalStore :: "duration \<Rightarrow> internalStore" where
  "newInternalStore d = \<lparr>entries = Map.empty, ttl = d\<rparr>"

definition cleanup :: "time \<Rightarrow> internalStore \<Rightarrow> internalStore" where
  "cleanup now s =
     s\<lparr>entries :=
         (\<lambda>k. case entries s k of
                 None \<Rightarrow> None
               | Some sh \<Rightarrow>
                   if Before (Timestamp sh) (Add now (- ttl s)) then None else Some sh)\<rparr>"

definition internal_Exists ::
  "time \<Rightarrow> string \<Rightarrow> internalStore \<Rightarrow> (bool \<times> error option) \<times> internalStore" where
  "internal_Exists now k s = ((entries (cleanup now s) k \<noteq> None, None), cleanup now s)"

definition internal_Save ::
  "time \<Rightarrow> Share \<Rightarrow> internalStore \<Rightarrow> error option \<times> internalStore" where
  "internal_Save now share s = (None, s\<lparr>entries := (entries s)(ID share \<mapsto> share)\<rparr>)"

definition internalStoreImpl :: "internalStore ShareStore" where
  "internalStoreImpl = \<lparr>Exists = internal_Exists, Save = internal_Save\<rparr>"

text \<open>
  \<open>DefaultShareValidator\<close> over a store \<open>sto\<close>: \<open>IsDuplicate\<close> drops the error of
  \<open>Exists\<close>; \<open>ValidateShare\<close> is the switch, whose cases are tried in order.
\<close>

definition IsDuplicate :: "time \<Rightarrow> 'st ShareStore \<Rightarrow> Share \<Rightarrow> 'st \<Rightarrow> bool \<times> 'st" where
  "IsDuplicate at_exists sto share st =
     (case Exists sto at_exists (ID share) st of ((found, e), st') \<Rightarrow> (found, st'))"

definition ValidateShare ::
  "(string \<Rightarrow> string) \<Rightarrow> time \<Rightarrow> time \<Rightarrow> 'st ShareStore \<Rightarrow> Share \<Rightarrow> string \<Rightarrow> duration \<Rightarrow>
   'st \<Rightarrow> ShareResult \<times> 'st" where
  "ValidateShare h at_exists now sto share target d st =
     (case IsDuplicate at_exists sto share st of (dup, st') \<Rightarrow>
        if dup
        then (\<lparr>Status = ShareDuplicate, Description = ''duplicate share'', Error = None,
               Valid = False\<rparr>, st')
        else if IsStale now share d
        then (\<lparr>Status = ShareStale, Description = ''stale share'', Error = None,
               Valid = False\<rparr>, st')
        else if \<not> IsValidHash h share target
        then (\<lparr>Status = ShareInvalid, Description = ''invalid hash'', Error = None,
               Valid = False\<rparr>, st')
        else (\<lparr>Status = ShareAccepted, Description = ''share accepted'', Error = None,
               Valid = True\<rparr>, st'))"

text \<open>\<open>ShareProcessor.Process\<close> with the default validator over the same store.\<close>

definition Process ::
  "(string \<Rightarrow> string) \<Rightarrow> time \<Rightarrow> time \<Rightarrow> time \<Rightarrow> 'st ShareStore \<Rightarrow> Share \<Rightarrow> string \<Rightarrow>
   duration \<Rightarrow> 'st \<Rightarrow> ShareResult \<times> 'st" where
  "Process h at_exists now at_save sto share target d st =
     (case ValidateShare h at_exists now sto share target d st of (result, st') \<Rightarrow>
        if \<not> Valid result
        then (result\<lparr>Error := Some (''rejected: '' @ Description result)\<rparr>, st')
        else
          (case Save sto at_save share st' of
             (Some e, st'') \<Rightarrow>
               (\<lparr>Status = ShareInvalid, Description = ''save failure'', Error = Some e,
                 Valid = False\<rparr>, st'')
           | (None, st'') \<Rightarrow> (result, st'')))"

section \<open>Pool.ProcessShare (pool/core)\<close>

text \<open>
  Of the fields of \<open>Pool\<close>, \<open>ProcessShare\<close> uses the engine and the store; the store may
  be nil.  Outside the pool object it reads and writes the global inspector and what
  stands behind the store; \<open>calls\<close> logs the store calls made so far.  The metrics
  counters are not modelled, and the context argument is not read by the function.
\<close>

record 'st Pool =
  Engine :: PoolCore
  ShareStore :: "'st ShareStore option"

record 'st env =
  inspector :: "state option"
  store :: 'st
  calls :: "store_call list"

text \<open>
  The clock readings of one call, in the order in which they are taken; the last two
  are those of the store, should it look at the clock.
\<close>

record clock =
  now_basic :: time
  now_job :: time
  now_eval :: time
  now_log :: time
  now_check :: time
  now_exists :: time
  now_save :: time

definition validateShareBasic :: "time \<Rightarrow> Share \<Rightarrow> error option" where
  "validateShareBasic now s =
     (if JobID s = '''' \<or> WorkerID s = '''' \<or> Nonce s = '''' \<or> Hash s = ''''
      then Some ''missing required fields''
      else if IsZero (Timestamp s) \<or> Since now (Timestamp s) > 5 * Minute
      then Some ''timestamp out of range''
      else None)"

definition isJobActive :: "'st Pool \<Rightarrow> time \<Rightarrow> string \<Rightarrow> bool" where
  "isJobActive p now jobID =
     (if jobID = '''' then False
      else
        (case activeJobs (Engine p) jobID of
           None \<Rightarrow> False
         | Some j \<Rightarrow> Since now (CreatedAt j) \<le> ttlJob (Engine p)))"

definition ProcessShare ::
  "(string \<Rightarrow> ipaddr option) \<Rightarrow> clock \<Rightarrow> 'st Pool \<Rightarrow> 'st env \<Rightarrow> Share \<Rightarrow>
   (ShareResult \<times> error option) \<times> 'st env" where
  "ProcessShare parseIP clk p env s =
     (case validateShareBasic (now_basic clk) s of
        Some err \<Rightarrow>
          ((\<lparr>Status = ShareInvalid, Description = ''basic validation failed'',
             Error = Some err, Valid = False\<rparr>, Some err), env)
      | None \<Rightarrow>
          if \<not> isJobActive p (now_job clk) (JobID s)
          then ((\<lparr>Status = ShareInvalid, Description = ''job not active or expired'',
                  Error = Some ''job not active or expired'', Valid = False\<rparr>, None), env)
          else
            (case EvaluateShare parseIP (now_eval clk) (now_log clk) (now_check clk)
                    (inspector env) (WorkerID s) (IP s) (Nonce s) (Hash s) (Timestamp s) of
               (verdict, ist) \<Rightarrow>
                 if Flagged verdict
                 then ((\<lparr>Status = ShareInvalid,
                         Description = ''blocked by antifraud: '' @ Reason verdict,
                         Error = Some ''antifraud rejection'', Valid = False\<rparr>, None),
                       env\<lparr>inspector := Some ist\<rparr>)
                 else
                   (case ShareStore p of
                      None \<Rightarrow>
                        ((\<lparr>Status = ShareAccepted, Description = ''share accepted'',
                           Error = None, Valid = True\<rparr>, None),
                         env\<lparr>inspector := Some ist\<rparr>)
                    | Some sto \<Rightarrow>
                        (case Exists sto (now_exists clk) (ID s) (store env) of
                           ((found, e), st1) \<Rightarrow>
                             if e = None \<and> found
                             then ((\<lparr>Status = ShareAccepted,
                                     Description = ''duplicate share ignored'',
                                     Error = None, Valid = True\<rparr>, None),
                                   \<lparr>inspector = Some ist, store = st1,
                                    calls = calls env @ [ExistsCall (ID s)]\<rparr>)
                             else
                               (case Save sto (now_save clk) s st1 of
                                  (Some err, st2) \<Rightarrow>
                                    ((\<lparr>Status = ShareInvalid,
                                       Description = ''failed to persist share'',
                                       Error = Some err, Valid = False\<rparr>, Some err),
                                     \<lparr>inspector = Some ist, store = st2,
                                      calls = calls env @ [ExistsCall (ID s), SaveCall s]\<rparr>)
                                | (None, st2) \<Rightarrow>
                                    ((\<lparr>Status = ShareAccepted,
                                       Description = ''share accepted'',
                                       Error = None, Valid = True\<rparr>, None),
                                     \<lparr>inspector = Some ist, store = st2,
                                      calls = calls env @ [ExistsCall (ID s), SaveCall s]\<rparr>))))))"

text \<open>The gates before the store, as one predicate on the inputs of a call.\<close>

definition passes_gates ::
  "(string \<Rightarrow> ipaddr option) \<Rightarrow> clock \<Rightarrow> 'st Pool \<Rightarrow> 'st env \<Rightarrow> Share \<Rightarrow> bool" where
  "passes_gates parseIP clk p env s =
     (validateShareBasic (now_basic clk) s = None \<and>
      isJobActive p (now_job clk) (JobID s) \<and>
      \<not> Flagged (fst (EvaluateShare parseIP (now_eval clk) (now_log clk) (now_check clk)
                       (inspector env) (WorkerID s) (IP s) (Nonce s) (Hash s)
                       (Timestamp s))))"

section \<open>Scenarios\<close>

text \<open>
  Concrete inputs on which the theorems below are exercised.  \<open>t0\<close> is
  2026-01-01T00:00:00Z.  The pool engine is the one \<open>NewPool\<close> builds
  (\<open>InitPool(30*time.Second, 2*time.Second)\<close>) with one connected worker and one job.
\<close>

definition t0 :: time where
  "t0 = 63902822400 * Second"

definition job1 :: Job where
  "job1 = \<lparr>job_ID = ''job-1'', Data = ''aa'',
            Target = ''0000ffffffffffffffffffffffffffffffffffffffffffffffffffffffffffff'',
            CreatedAt = t0, ExpiresAt = t0 + 30 * Second, BlockHeight = 101, Active = True\<rparr>"

definition share1 :: Share where
  "share1 = \<lparr>ID = ''share-1'', JobID = ''job-1'', WorkerID = ''w1'', Nonce = ''00000000'',
              Hash = ''01b9cad010c0bdf4775b87d3fc2c2322629cf710ea324c539b16958f7010e442'',
              Diff = 1, Timestamp = t0 + Second, IP = ''10.0.0.1''\<rparr>"

definition engine1 :: PoolCore where
  "engine1 = (InitPool (30 * Second) (2 * Second))
     \<lparr>workers := [''w1'' \<mapsto> NewWorker ''w1''],
      activeJobs := [''job-1'' \<mapsto> job1]\<rparr>"

text \<open>Worker w1 submits one, two and three seconds after the job was created.\<close>

definition trace1 :: "submission list" where
  "trace1 =
     [\<lparr>sub_wid = ''w1'', sub_share = Some share1, sub_at_job = t0 + Second,
       sub_now = t0 + Second\<rparr>,
      \<lparr>sub_wid = ''w1'', sub_share = Some share1, sub_at_job = t0 + 2 * Second,
       sub_now = t0 + 2 * Second\<rparr>,
      \<lparr>sub_wid = ''w1'', sub_share = Some share1, sub_at_job = t0 + 3 * Second,
       sub_now = t0 + 3 * Second\<rparr>]"

text \<open>
  The address parser of the scenarios: dotted-quad IPv4 literals as Go reads them
  (four decimal fields, no leading zero, each at most 255), after trimming ASCII white
  space.  Every other string is unparseable here; the scenarios use no IPv6 literal.
\<close>

definition is_space :: "char \<Rightarrow> bool" where
  "is_space c = (c \<in> set [CHR '' '', CHR 0x09, CHR 0x0A, CHR 0x0B, CHR 0x0C, CHR 0x0D])"

definition TrimSpace :: "string \<Rightarrow> string" where
  "TrimSpace s = rev (dropWhile is_space (rev (dropWhile is_space s)))"

fun split_dot :: "string \<Rightarrow> string list" where
  "split_dot [] = [[]]"
| "split_dot (c # cs) =
     (if c = CHR ''.'' then [] # split_dot cs
      else (case split_dot cs of [] \<Rightarrow> [[c]] | f # fs \<Rightarrow> (c # f) # fs))"

definition is_digit :: "char \<Rightarrow> bool" where
  "is_digit c = (c \<in> set ''0123456789'')"

definition digits_value :: "string \<Rightarrow> nat" where
  "digits_value f = foldl (\<lambda>v c. 10 * v + (of_char c - 48)) 0 f"

definition octet :: "string \<Rightarrow> nat option" where
  "octet f =
     (if f = [] \<or> \<not> list_all is_digit f \<or> (length f > 1 \<and> hd f = CHR ''0'') \<or>
         digits_value f > 255
      then None else Some (digits_value f))"

definition parseIPv4 :: "string \<Rightarrow> ipaddr option" where
  "parseIPv4 s =
     (case map octet (split_dot (TrimSpace s)) of
        [Some a, Some b, Some c, Some d] \<Rightarrow> Some (V4 a b c d)
      | _ \<Rightarrow> None)"

text \<open>All clock readings of a call taken at the same instant.\<close>

definition instant :: "time \<Rightarrow> clock" where
  "instant t = \<lparr>now_basic = t, now_job = t, now_eval = t, now_log = t, now_check = t,
               now_exists = t, now_save = t\<rparr>"

text \<open>
  The pool around \<open>engine1\<close>, without a store and with an in-memory store, and the
  environment at start: no inspector yet, an empty store, no call made.
\<close>

definition pool_nil :: "internalStore Pool" where
  "pool_nil = \<lparr>Engine = engine1, ShareStore = None\<rparr>"

definition pool1 :: "internalStore Pool" where
  "pool1 = \<lparr>Engine = engine1, ShareStore = Some internalStoreImpl\<rparr>"

definition env0 :: "internalStore env" where
  "env0 = \<lparr>inspector = None, store = newInternalStore (45 * Second), calls = []\<rparr>"

text \<open>The environment after \<open>share1\<close> has been processed once, one second after \<open>t0\<close>.\<close>

definition env1 :: "internalStore env" where
  "env1 =
     \<lparr>inspector = Some
        \<lparr>Greylist = Map.empty,
         Subnets = [''10.0.0.0'' \<mapsto> [t0 + Second]],
         Tokens = [''00000000'' \<mapsto> [t0 + Second], Hash share1 \<mapsto> [t0 + Second]],
         NonceMap = [''w1'' \<mapsto> [''00000000'' \<mapsto> t0 + Second]]\<rparr>,
      store = \<lparr>entries = [''share-1'' \<mapsto> share1], ttl = 45 * Second\<rparr>,
      calls = [ExistsCall ''share-1'', SaveCall share1]\<rparr>"

text \<open>
  The shape check in the words of the specification: the required fields are not
  empty (the hash is optional), the timestamp is within five minutes of the clock in
  either direction, the nonce is 8 to 64 lower-case hex digits, the difficulty is
  positive.
\<close>

definition is_lower_hex :: "char \<Rightarrow> bool" where
  "is_lower_hex c = (c \<in> set ''0123456789abcdef'')"

definition spec_shape_ok :: "time \<Rightarrow> Share \<Rightarrow> bool" where
  "spec_shape_ok now s =
     (JobID s \<noteq> [] \<and> WorkerID s \<noteq> [] \<and> Nonce s \<noteq> [] \<and>
      \<bar>now - Timestamp s\<bar> \<le> 5 * Minute \<and>
      list_all is_lower_hex (Nonce s) \<and> 8 \<le> length (Nonce s) \<and> length (Nonce s) \<le> 64 \<and>
      Diff s > 0)"

text \<open>
  Variants of \<open>share1\<close>: without the client's hash; with a nonce that is not hex and a
  zero difficulty; stamped ten minutes ahead of the clock.
\<close>

definition share_nohash :: Share where
  "share_nohash = share1\<lparr>Hash := []\<rparr>"

definition share_odd :: Share where
  "share_odd = share1\<lparr>Nonce := ''xyz'', Diff := 0\<rparr>"

definition share_future :: Share where
  "share_future = share1\<lparr>Timestamp := t0 + 10 * Minute\<rparr>"

text \<open>
  SHA-256 in hex on the two messages that the scenarios hash, the data of \<open>job1\<close> and
  the id of \<open>job1\<close>, each followed by the nonce of \<open>share1\<close>, with the digests the Go
  library gives; no scenario hashes another message.
\<close>

definition scenario_digest :: "string \<Rightarrow> string" where
  "scenario_digest m =
     (if m = ''aa00000000''
      then ''01b9cad010c0bdf4775b87d3fc2c2322629cf710ea324c539b16958f7010e442''
      else if m = ''job-100000000''
      then ''5d8d699f088834a46c086a4aa48ee4eb4bb6a76af65653558c50c1b84e8ee9fd''
      else '''')"

text \<open>
  \<open>share1\<close> under another id, stamped fifty seconds before \<open>t0\<close>: older than the 45
  seconds for which the in-memory store remembers a share.
\<close>

definition share_old :: Share where
  "share_old = share1\<lparr>ID := ''share-0'', Timestamp := t0 - 50 * Second\<rparr>"

text \<open>
  Job expiry in the words of the specification: the job is unknown, or the clock is past
  its \<open>expires_at\<close>.
\<close>

definition spec_job_expired :: "'st Pool \<Rightarrow> time \<Rightarrow> string \<Rightarrow> bool" where
  "spec_job_expired p now jobID =
     (case activeJobs (Engine p) jobID of
        None \<Rightarrow> True
      | Some j \<Rightarrow> After now (ExpiresAt j))"

text \<open>
  A job as \<open>CreateJob\<close> of a \<open>JobManager\<close> with a timeout of thirty seconds makes it: the
  clock is read once for \<open>CreatedAt\<close> and again, here a microsecond later, for
  \<open>ExpiresAt\<close>.
\<close>

definition job_made :: Job where
  "job_made = job1\<lparr>ExpiresAt := t0 + 1000 + 30 * Second\<rparr>"

definition pool_made :: "internalStore Pool" where
  "pool_made =
     \<lparr>Engine = engine1\<lparr>activeJobs := [''job-1'' \<mapsto> job_made]\<rparr>,
      ShareStore = Some internalStoreImpl\<rparr>"

text \<open>
  A job that a \<open>JobManager\<close> with a timeout of ten seconds created, dispatched to a pool
  whose engine keeps jobs for thirty.
\<close>

definition job_short :: Job where
  "job_short = job1\<lparr>ExpiresAt := t0 + 10 * Second\<rparr>"

definition pool_short :: "internalStore Pool" where
  "pool_short =
     \<lparr>Engine = engine1\<lparr>activeJobs := [''job-1'' \<mapsto> job_short]\<rparr>,
      ShareStore = Some internalStoreImpl\<rparr>"

text \<open>
  Notions for the analysis of \<open>LogRequest\<close>: the key under which it files a submitter
  (it extracts the subnet from what \<open>EvaluateShare\<close> has extracted already), the windows
  of a subnet and of a token as they stand once \<open>now\<close> has been appended, the outcome of
  the clock-skew test, and the condition under which \<open>LogRequest\<close> answers \<open>Block\<close>.
\<close>

definition subnet_key :: "(string \<Rightarrow> ipaddr option) \<Rightarrow> string \<Rightarrow> string" where
  "subnet_key parseIP ip = extractSubnet parseIP (extractSubnet parseIP ip)"

definition subnet_window :: "state \<Rightarrow> string \<Rightarrow> time \<Rightarrow> time list" where
  "subnet_window st key now = pruneOld (slice_of (Subnets st) key) now @ [now]"

definition token_window :: "state \<Rightarrow> string \<Rightarrow> time \<Rightarrow> time list" where
  "token_window st token now = pruneOld (slice_of (Tokens st) token) now @ [now]"

definition no_skew :: "time \<Rightarrow> time \<Rightarrow> bool" where
  "no_skew now ts =
     (\<not> IsZero ts \<and> \<not> After ts (Add now clockSkewTolerance) \<and>
      \<not> clockSkewTolerance < Sub now ts)"

definition rate_blocked ::
  "(string \<Rightarrow> ipaddr option) \<Rightarrow> state \<Rightarrow> string \<Rightarrow> string \<Rightarrow> time \<Rightarrow> bool" where
  "rate_blocked parseIP st ip nonce now =
     (20 < length (subnet_window st (subnet_key parseIP ip) now) \<or>
      10 \<le> length (token_window st nonce now))"

text \<open>
  Evaluations one after the other, each with its three clock readings and the
  timestamp of the share at the same instant, as \<open>IsFraudulentNonce\<close> calls it.
\<close>

record request =
  req_miner :: string
  req_ip :: string
  req_nonce :: string
  req_hash :: string
  req_at :: time

definition evaluate :: "state option \<Rightarrow> request \<Rightarrow> Verdict \<times> state" where
  "evaluate g r =
     EvaluateShare parseIPv4 (req_at r) (req_at r) (req_at r) g
       (req_miner r) (req_ip r) (req_nonce r) (req_hash r) (req_at r)"

fun evaluate_all :: "state option \<Rightarrow> request list \<Rightarrow> state option" where
  "evaluate_all g [] = g"
| "evaluate_all g (r # rs) = evaluate_all (Some (snd (evaluate g r))) rs"

definition Millisecond :: duration where
  "Millisecond = 1000000"

text \<open>
  A burst: twenty miners w1 to w20 at 10.0.0.1 to 10.0.0.20, one request each, half a
  second apart, with nonces of their own.  \<open>after_burst\<close> is the inspector after it;
  the twenty-first request comes eleven seconds after \<open>t0\<close>.
\<close>

definition burst_request :: "nat \<Rightarrow> request" where
  "burst_request k =
     \<lparr>req_miner = ''w'' @ decimal k, req_ip = ''10.0.0.'' @ decimal k,
      req_nonce = ''000000'' @ decimal (10 + k), req_hash = [],
      req_at = t0 + int k * (500 * Millisecond)\<rparr>"

definition burst :: "request list" where
  "burst = map burst_request
     [1, 2, 3, 4, 5, 6, 7, 8, 9, 10, 11, 12, 13, 14, 15, 16, 17, 18, 19, 20]"

definition after_burst :: state where
  "after_burst = LaunchInspector (evaluate_all None burst)"

definition request21 :: request where
  "request21 = \<lparr>req_miner = ''w21'', req_ip = ''10.0.0.21'', req_nonce = ''00000031'',
                 req_hash = [], req_at = t0 + 11 * Second\<rparr>"

text \<open>
  The same request ten seconds later, twenty-one seconds after \<open>t0\<close>, in place of the
  twenty-first: by then the first eleven requests of the burst are more than 15 s old.
\<close>

definition request_late :: request where
  "request_late = request21\<lparr>req_at := t0 + 21 * Second\<rparr>"

text \<open>
  An echo: nine miners m1 to m9, each in a /24 of its own (10.0.1.1 to 10.0.9.1), send
  the same nonce one second apart.  \<open>after_echo\<close> is the inspector after it; a tenth
  miner in a tenth /24 sends the nonce ten seconds after \<open>t0\<close>.
\<close>

definition echo_request :: "nat \<Rightarrow> request" where
  "echo_request k =
     \<lparr>req_miner = ''m'' @ decimal k, req_ip = ''10.0.'' @ decimal k @ ''.1'',
      req_nonce = ''deadbeef'', req_hash = [], req_at = t0 + int k * Second\<rparr>"

definition echo :: "request list" where
  "echo = map echo_request [1, 2, 3, 4, 5, 6, 7, 8, 9]"

definition after_echo :: state where
  "after_echo = LaunchInspector (evaluate_all None echo)"

definition request10 :: request where
  "request10 = echo_request 10"

text \<open>
  The inspector after the one evaluation of \<open>share1\<close>, and five ticks of the sweeper,
  ninety seconds apart, with no submission in between.
\<close>

definition inspector1 :: state where
  "inspector1 = LaunchInspector (inspector env1)"

definition ticks :: "time list" where
  "ticks = map (\<lambda>k. t0 + k * sweepInterval) [1, 2, 3, 4, 5]"

section \<open>Saturating subtraction against a threshold\<close>


lemma Sub_gt_iff: "minDuration \<le> c \<Longrightarrow> c < maxDuration \<Longrightarrow> c < Sub t u \<longleftrightarrow> c < t - u"
  by (auto simp: Sub_def)


section \<open>PoolCore.SubmitShare\<close>

lemmas scenario_defs =
  t0_def job1_def share1_def engine1_def trace1_def InitPool_def NewWorker_def
  Second_def Minute_def maxDuration_def minDuration_def

lemmas time_defs = Since_def Sub_def Add_def After_def Before_def IsZero_def

text \<open>
  C10.  Whenever \<open>SubmitShare\<close> returns an error, the pool it leaves is the pool it was
  given, so \<open>lastSubmission\<close> and \<open>workerShares\<close> keep their values; the error is one of
  the four the function can produce.
\<close>

theorem SubmitShare_error_atomic:
  assumes "fst (SubmitShare pc wid s at_job now) = Some e"
  shows "snd (SubmitShare pc wid s at_job now) = pc \<and>
         (e = ''nil share'' \<or> e = ''invalid or expired job'' \<or>
          e = ''worker not active'' \<or> e = ''rate limit exceeded'')"
  using assms
  by (auto simp: SubmitShare_def split: option.splits if_splits)

lemma engine1_first_submit:
  "SubmitShare engine1 ''w1'' (Some share1) (t0 + Second) (t0 + Second) =
     (None, engine1\<lparr>lastSubmission := [''w1'' \<mapsto> t0 + Second],
                     workerShares := [''w1'' \<mapsto> [share1]]\<rparr>)"
  by (simp add: SubmitShare_def shares_of_def IsActive_def scenario_defs time_defs)

lemma engine1_second_submit:
  "fst (SubmitShare (engine1\<lparr>lastSubmission := [''w1'' \<mapsto> t0 + Second],
                              workerShares := [''w1'' \<mapsto> [share1]]\<rparr>)
          ''w1'' (Some share1) (t0 + 2 * Second) (t0 + 2 * Second)) =
     Some ''rate limit exceeded''"
  by (simp add: SubmitShare_def shares_of_def IsActive_def scenario_defs time_defs)

theorem SubmitShare_error_atomic_witness:
  "fst (SubmitShare (engine1\<lparr>lastSubmission := [''w1'' \<mapsto> t0 + Second],
                              workerShares := [''w1'' \<mapsto> [share1]]\<rparr>)
          ''w1'' (Some share1) (t0 + 2 * Second) (t0 + 2 * Second)) =
     Some ''rate limit exceeded'' \<and>
   snd (SubmitShare (engine1\<lparr>lastSubmission := [''w1'' \<mapsto> t0 + Second],
                              workerShares := [''w1'' \<mapsto> [share1]]\<rparr>)
          ''w1'' (Some share1) (t0 + 2 * Second) (t0 + 2 * Second)) =
     engine1\<lparr>lastSubmission := [''w1'' \<mapsto> t0 + Second],
             workerShares := [''w1'' \<mapsto> [share1]]\<rparr>"
  using SubmitShare_error_atomic [OF engine1_second_submit] engine1_second_submit
  by blast
















text \<open>
  \<open>PurgeWorker\<close> is no submitter, and it forgets the worker's last submission: a worker
  that is registered again submits without regard to what it submitted before.
\<close>

lemma PurgeWorker_lastSubmission: "lastSubmission (PurgeWorker pc w) w = None"
  by (simp add: PurgeWorker_def)

section \<open>Pool.ProcessShare\<close>

lemmas eval_defs = ProcessShare_def validateShareBasic_def isJobActive_def EvaluateShare_def
  LogRequest_def checkNonceReuse_def markToken_def Check_def LaunchInspector_def empty_state_def
  pruneOld_def slice_of_def nonces_of_def prune_nonces_def
  windowSpan_def maxRequestsPerSubnet_def nonceReuseWarn_def nonceReuseBlock_def
  greylistTimeout_def clockSkewTolerance_def
  internalStoreImpl_def internal_Exists_def internal_Save_def cleanup_def newInternalStore_def
  instant_def pool1_def pool_nil_def env0_def env1_def Let_def

lemma parseIPv4_scenario:
  "parseIPv4 ''10.0.0.1'' = Some (V4 10 0 0 1)" "parseIPv4 ''10.0.0.0'' = Some (V4 10 0 0 0)"
  "parseIPv4 ''w1'' = None"
  by (simp_all add: parseIPv4_def TrimSpace_def is_space_def octet_def is_digit_def
      digits_value_def)

lemma extractSubnet_scenario [simp]:
  "extractSubnet parseIPv4 ''10.0.0.1'' = ''10.0.0.0''"
  "extractSubnet parseIPv4 ''10.0.0.0'' = ''10.0.0.0''"
  "extractSubnet parseIPv4 ''w1'' = ''w1''"
  by (simp_all add: extractSubnet_def parseIPv4_scenario dotted_def)

lemma Since_gt_iff: "minDuration \<le> c \<Longrightarrow> c < maxDuration \<Longrightarrow> c < Since t u \<longleftrightarrow> c < t - u"
  by (simp add: Since_def Sub_gt_iff)

lemma five_minutes_range: "minDuration \<le> 5 * Minute" "5 * Minute < maxDuration"
  by (simp_all add: Minute_def Second_def minDuration_def maxDuration_def)

lemma validateShareBasic_None_iff:
  "validateShareBasic now s = None \<longleftrightarrow>
     JobID s \<noteq> [] \<and> WorkerID s \<noteq> [] \<and> Nonce s \<noteq> [] \<and> Hash s \<noteq> [] \<and>
     Timestamp s \<noteq> 0 \<and> \<not> 5 * Minute < now - Timestamp s"
  by (auto simp: validateShareBasic_def IsZero_def Since_gt_iff five_minutes_range)

lemma ProcessShare_basic_iff:
  "Description (fst (fst (ProcessShare parseIP clk p env s))) = ''basic validation failed'' \<longleftrightarrow>
     validateShareBasic (now_basic clk) s \<noteq> None"
  by (auto simp: ProcessShare_def split: option.splits prod.splits)

text \<open>The first processing of \<open>share1\<close>, with the in-memory store and without a store.\<close>

lemma share1_first:
  "ProcessShare parseIPv4 (instant (t0 + Second)) pool1 env0 share1 =
     ((\<lparr>Status = ShareAccepted, Description = ''share accepted'', Error = None,
        Valid = True\<rparr>, None), env1)"
  by (simp add: eval_defs scenario_defs time_defs)

lemma share1_first_nil:
  "ProcessShare parseIPv4 (instant (t0 + Second)) pool_nil env0 share1 =
     ((\<lparr>Status = ShareAccepted, Description = ''share accepted'', Error = None,
        Valid = True\<rparr>, None), env0\<lparr>inspector := inspector env1\<rparr>)"
  by (simp add: eval_defs scenario_defs time_defs)

text \<open>
  C4, as the code has it.  \<open>ProcessShare\<close> answers INVALID, \<open>basic validation failed\<close>
  exactly when the job id, the worker id, the nonce or the hash is empty, or the
  timestamp is the zero time or more than five minutes before the clock.  The hash is
  required; a timestamp ahead of the clock, the form of the nonce and the difficulty
  are not looked at.
\<close>

theorem shape_check_exact:
  "(Status (fst (fst (ProcessShare parseIP clk p env s))) = ShareInvalid \<and>
    Description (fst (fst (ProcessShare parseIP clk p env s))) = ''basic validation failed'') \<longleftrightarrow>
   (JobID s = [] \<or> WorkerID s = [] \<or> Nonce s = [] \<or> Hash s = [] \<or>
    Timestamp s = 0 \<or> 5 * Minute < now_basic clk - Timestamp s)"
proof -
  have "Status (fst (fst (ProcessShare parseIP clk p env s))) = ShareInvalid"
    if "validateShareBasic (now_basic clk) s \<noteq> None"
    using that by (auto simp: ProcessShare_def split: option.splits)
  then show ?thesis
    using ProcessShare_basic_iff [of parseIP clk p env s]
      validateShareBasic_None_iff [of "now_basic clk" s]
    by auto
qed

text \<open>
  C4 as stated fails.  A share that meets the specification's shape and only lacks the
  hash is answered \<open>basic validation failed\<close>; a share with the nonce \<open>xyz\<close> and
  difficulty 0 is accepted; a share stamped ten minutes ahead is turned away by the fraud
  screen, not by the shape check.
\<close>

theorem shape_check_counterexample:
  "spec_shape_ok (t0 + Second) share_nohash \<and>
   fst (ProcessShare parseIPv4 (instant (t0 + Second)) pool1 env0 share_nohash) =
     (\<lparr>Status = ShareInvalid, Description = ''basic validation failed'',
       Error = Some ''missing required fields'', Valid = False\<rparr>,
      Some ''missing required fields'') \<and>
   \<not> spec_shape_ok (t0 + Second) share_odd \<and>
   fst (ProcessShare parseIPv4 (instant (t0 + Second)) pool1 env0 share_odd) =
     (\<lparr>Status = ShareAccepted, Description = ''share accepted'', Error = None,
       Valid = True\<rparr>, None) \<and>
   \<not> spec_shape_ok (t0 + Second) share_future \<and>
   fst (ProcessShare parseIPv4 (instant (t0 + Second)) pool1 env0 share_future) =
     (\<lparr>Status = ShareInvalid,
       Description = ''blocked by antifraud: clock skew out of tolerance'',
       Error = Some ''antifraud rejection'', Valid = False\<rparr>, None)"
proof (intro conjI)
  show "spec_shape_ok (t0 + Second) share_nohash"
    by (simp add: spec_shape_ok_def share_nohash_def is_lower_hex_def scenario_defs)
  show "fst (ProcessShare parseIPv4 (instant (t0 + Second)) pool1 env0 share_nohash) =
     (\<lparr>Status = ShareInvalid, Description = ''basic validation failed'',
       Error = Some ''missing required fields'', Valid = False\<rparr>,
      Some ''missing required fields'')"
    by (simp add: ProcessShare_def validateShareBasic_def share_nohash_def scenario_defs)
  show "\<not> spec_shape_ok (t0 + Second) share_odd"
    by (simp add: spec_shape_ok_def share_odd_def is_lower_hex_def scenario_defs)
  show "fst (ProcessShare parseIPv4 (instant (t0 + Second)) pool1 env0 share_odd) =
     (\<lparr>Status = ShareAccepted, Description = ''share accepted'', Error = None,
       Valid = True\<rparr>, None)"
    by (simp add: eval_defs share_odd_def scenario_defs time_defs)
  show "\<not> spec_shape_ok (t0 + Second) share_future"
    by (simp add: spec_shape_ok_def share_future_def is_lower_hex_def scenario_defs)
  show "fst (ProcessShare parseIPv4 (instant (t0 + Second)) pool1 env0 share_future) =
     (\<lparr>Status = ShareInvalid,
       Description = ''blocked by antifraud: clock skew out of tolerance'',
       Error = Some ''antifraud rejection'', Valid = False\<rparr>, None)"
    by (simp add: eval_defs share_future_def scenario_defs time_defs)
qed

text \<open>
  C5, as the code has it.  Let the pool's job TTL be a duration other than the largest
  one, and let the job of the share be unknown to the pool, or have its \<open>expires_at\<close> no
  earlier than \<open>created_at + TTL\<close> with the clock past \<open>expires_at\<close>.  Then the share is
  not accepted; and if it passes the shape check, the answer is INVALID,
  \<open>job not active or expired\<close>, and nothing has changed.
\<close>

theorem expired_job_rejected:
  assumes "minDuration \<le> ttlJob (Engine p)" and "ttlJob (Engine p) < maxDuration"
    and "case activeJobs (Engine p) (JobID s) of
           None \<Rightarrow> True
         | Some j \<Rightarrow> CreatedAt j + ttlJob (Engine p) \<le> ExpiresAt j \<and>
                     ExpiresAt j < now_job clk"
  shows "\<not> Valid (fst (fst (ProcessShare parseIP clk p env s))) \<and>
         Status (fst (fst (ProcessShare parseIP clk p env s))) = ShareInvalid \<and>
         (validateShareBasic (now_basic clk) s = None \<longrightarrow>
          ProcessShare parseIP clk p env s =
            ((\<lparr>Status = ShareInvalid, Description = ''job not active or expired'',
               Error = Some ''job not active or expired'', Valid = False\<rparr>, None), env))"
proof -
  have "\<not> isJobActive p (now_job clk) (JobID s)"
    using assms
    by (auto simp: isJobActive_def Since_gt_iff not_le split: option.splits)
  then show ?thesis
    by (auto simp: ProcessShare_def split: option.splits)
qed

text \<open>
  The job of the share was made by \<open>CreateJob\<close>, so its \<open>expires_at\<close> is a microsecond
  after \<open>created_at\<close> plus thirty seconds; the share comes forty seconds after \<open>t0\<close>.
\<close>

theorem expired_job_rejected_witness:
  "minDuration \<le> ttlJob (Engine pool_made) \<and> ttlJob (Engine pool_made) < maxDuration \<and>
   activeJobs (Engine pool_made) (JobID share1) = Some job_made \<and>
   CreatedAt job_made + ttlJob (Engine pool_made) < ExpiresAt job_made \<and>
   ExpiresAt job_made < now_job (instant (t0 + 40 * Second)) \<and>
   ProcessShare parseIPv4 (instant (t0 + 40 * Second)) pool_made env1 share1 =
     ((\<lparr>Status = ShareInvalid, Description = ''job not active or expired'',
        Error = Some ''job not active or expired'', Valid = False\<rparr>, None), env1)"
proof -
  have ttl: "minDuration \<le> ttlJob (Engine pool_made)"
    "ttlJob (Engine pool_made) < maxDuration"
    by (simp_all add: pool_made_def scenario_defs)
  have job: "activeJobs (Engine pool_made) (JobID share1) = Some job_made"
    by (simp add: pool_made_def scenario_defs)
  have exp: "CreatedAt job_made + ttlJob (Engine pool_made) < ExpiresAt job_made"
    "ExpiresAt job_made < now_job (instant (t0 + 40 * Second))"
    by (simp_all add: pool_made_def job_made_def instant_def scenario_defs)
  have shape: "validateShareBasic (now_basic (instant (t0 + 40 * Second))) share1 = None"
    by (simp add: validateShareBasic_def instant_def scenario_defs time_defs)
  have "case activeJobs (Engine pool_made) (JobID share1) of
           None \<Rightarrow> True
         | Some j \<Rightarrow> CreatedAt j + ttlJob (Engine pool_made) \<le> ExpiresAt j \<and>
                     ExpiresAt j < now_job (instant (t0 + 40 * Second))"
    using job exp by simp
  from expired_job_rejected [OF ttl this, of parseIPv4 env1] shape ttl job exp
  show ?thesis by blast
qed

text \<open>
  C5 as stated fails twice.  A share without hash on an expired job is answered
  \<open>basic validation failed\<close>, the shape check coming first.  And the pool measures a
  job's life from \<open>created_at\<close> with its own TTL, never reading \<open>expires_at\<close>: a share
  on a job ten seconds past its \<open>expires_at\<close> is accepted.
\<close>

theorem expired_job_counterexample:
  "spec_job_expired pool1 (t0 + 40 * Second) (JobID share_nohash) \<and>
   fst (ProcessShare parseIPv4 (instant (t0 + 40 * Second)) pool1 env1 share_nohash) =
     (\<lparr>Status = ShareInvalid, Description = ''basic validation failed'',
       Error = Some ''missing required fields'', Valid = False\<rparr>,
      Some ''missing required fields'') \<and>
   spec_job_expired pool_short (t0 + 20 * Second) (JobID share1) \<and>
   fst (ProcessShare parseIPv4 (instant (t0 + 20 * Second)) pool_short env0 share1) =
     (\<lparr>Status = ShareAccepted, Description = ''share accepted'', Error = None,
       Valid = True\<rparr>, None)"
proof (intro conjI)
  show "spec_job_expired pool1 (t0 + 40 * Second) (JobID share_nohash)"
    by (simp add: spec_job_expired_def pool1_def share_nohash_def scenario_defs time_defs)
  show "fst (ProcessShare parseIPv4 (instant (t0 + 40 * Second)) pool1 env1 share_nohash) =
     (\<lparr>Status = ShareInvalid, Description = ''basic validation failed'',
       Error = Some ''missing required fields'', Valid = False\<rparr>,
      Some ''missing required fields'')"
    by (simp add: ProcessShare_def validateShareBasic_def share_nohash_def scenario_defs)
  show "spec_job_expired pool_short (t0 + 20 * Second) (JobID share1)"
    by (simp add: spec_job_expired_def pool_short_def job_short_def scenario_defs time_defs)
  show "fst (ProcessShare parseIPv4 (instant (t0 + 20 * Second)) pool_short env0 share1) =
     (\<lparr>Status = ShareAccepted, Description = ''share accepted'', Error = None,
       Valid = True\<rparr>, None)"
    by (simp add: eval_defs pool_short_def job_short_def scenario_defs time_defs)
qed

text \<open>What \<open>ProcessShare\<close> does once the three gates are passed.\<close>

lemma ProcessShare_after_gates:
  assumes "passes_gates parseIP clk p env s"
  shows "ProcessShare parseIP clk p env s =
     (let ist = snd (EvaluateShare parseIP (now_eval clk) (now_log clk) (now_check clk)
                      (inspector env) (WorkerID s) (IP s) (Nonce s) (Hash s) (Timestamp s))
      in case ShareStore p of
           None \<Rightarrow>
             ((\<lparr>Status = ShareAccepted, Description = ''share accepted'', Error = None,
                Valid = True\<rparr>, None), env\<lparr>inspector := Some ist\<rparr>)
         | Some sto \<Rightarrow>
             (case Exists sto (now_exists clk) (ID s) (store env) of
                ((found, e), st1) \<Rightarrow>
                  if e = None \<and> found
                  then ((\<lparr>Status = ShareAccepted, Description = ''duplicate share ignored'',
                          Error = None, Valid = True\<rparr>, None),
                        \<lparr>inspector = Some ist, store = st1,
                         calls = calls env @ [ExistsCall (ID s)]\<rparr>)
                  else
                    (case Save sto (now_save clk) s st1 of
                       (Some err, st2) \<Rightarrow>
                         ((\<lparr>Status = ShareInvalid, Description = ''failed to persist share'',
                            Error = Some err, Valid = False\<rparr>, Some err),
                          \<lparr>inspector = Some ist, store = st2,
                           calls = calls env @ [ExistsCall (ID s), SaveCall s]\<rparr>)
                     | (None, st2) \<Rightarrow>
                         ((\<lparr>Status = ShareAccepted, Description = ''share accepted'',
                            Error = None, Valid = True\<rparr>, None),
                          \<lparr>inspector = Some ist, store = st2,
                           calls = calls env @ [ExistsCall (ID s), SaveCall s]\<rparr>))))"
proof -
  obtain verdict ist
    where ev: "EvaluateShare parseIP (now_eval clk) (now_log clk) (now_check clk)
                 (inspector env) (WorkerID s) (IP s) (Nonce s) (Hash s) (Timestamp s) =
               (verdict, ist)"
    by (cases "EvaluateShare parseIP (now_eval clk) (now_log clk) (now_check clk)
                 (inspector env) (WorkerID s) (IP s) (Nonce s) (Hash s) (Timestamp s)")
  from assms ev have "validateShareBasic (now_basic clk) s = None"
    "isJobActive p (now_job clk) (JobID s)" "\<not> Flagged verdict"
    by (simp_all add: passes_gates_def)
  then show ?thesis
    by (simp add: ProcessShare_def ev Let_def)
qed

text \<open>
  C9.  On a pool whose store is nil, a share that passes the shape, job and fraud gates
  is accepted (\<open>share accepted\<close>, valid), the store behind the interface is not touched
  and no store call is made; and when the same share is processed again and passes the
  gates again, it is accepted again in the same way.
\<close>

theorem nil_store_accepts:
  assumes "ShareStore p = None" and "passes_gates parseIP clk p env s"
  shows "fst (ProcessShare parseIP clk p env s) =
           (\<lparr>Status = ShareAccepted, Description = ''share accepted'', Error = None,
             Valid = True\<rparr>, None) \<and>
         store (snd (ProcessShare parseIP clk p env s)) = store env \<and>
         calls (snd (ProcessShare parseIP clk p env s)) = calls env \<and>
         (passes_gates parseIP clk' p (snd (ProcessShare parseIP clk p env s)) s \<longrightarrow>
          fst (ProcessShare parseIP clk' p (snd (ProcessShare parseIP clk p env s)) s) =
            (\<lparr>Status = ShareAccepted, Description = ''share accepted'', Error = None,
              Valid = True\<rparr>, None) \<and>
          calls (snd (ProcessShare parseIP clk' p (snd (ProcessShare parseIP clk p env s)) s)) =
            calls env)"
proof -
  have one: "fst (ProcessShare parseIP c p e s) =
           (\<lparr>Status = ShareAccepted, Description = ''share accepted'', Error = None,
             Valid = True\<rparr>, None) \<and>
         store (snd (ProcessShare parseIP c p e s)) = store e \<and>
         calls (snd (ProcessShare parseIP c p e s)) = calls e"
    if "passes_gates parseIP c p e s" for c e
    using assms(1) by (simp add: ProcessShare_after_gates [OF that] Let_def)
  from one [OF assms(2)] one [of clk' "snd (ProcessShare parseIP clk p env s)"]
  show ?thesis by simp
qed

lemma share1_gates_nil:
  "passes_gates parseIPv4 (instant (t0 + Second)) pool_nil env0 share1"
  "passes_gates parseIPv4 (instant (t0 + 20 * Second)) pool_nil
     (env0\<lparr>inspector := inspector env1\<rparr>) share1"
  by (simp_all add: passes_gates_def eval_defs scenario_defs time_defs)

theorem nil_store_accepts_witness:
  "ShareStore pool_nil = None \<and>
   passes_gates parseIPv4 (instant (t0 + Second)) pool_nil env0 share1 \<and>
   passes_gates parseIPv4 (instant (t0 + 20 * Second)) pool_nil
     (snd (ProcessShare parseIPv4 (instant (t0 + Second)) pool_nil env0 share1)) share1 \<and>
   fst (ProcessShare parseIPv4 (instant (t0 + Second)) pool_nil env0 share1) =
     (\<lparr>Status = ShareAccepted, Description = ''share accepted'', Error = None,
       Valid = True\<rparr>, None) \<and>
   fst (ProcessShare parseIPv4 (instant (t0 + 20 * Second)) pool_nil
          (snd (ProcessShare parseIPv4 (instant (t0 + Second)) pool_nil env0 share1)) share1) =
     (\<lparr>Status = ShareAccepted, Description = ''share accepted'', Error = None,
       Valid = True\<rparr>, None) \<and>
   calls (snd (ProcessShare parseIPv4 (instant (t0 + 20 * Second)) pool_nil
          (snd (ProcessShare parseIPv4 (instant (t0 + Second)) pool_nil env0 share1)) share1)) = []"
proof -
  have nil: "ShareStore pool_nil = None"
    by (simp add: pool_nil_def)
  have again: "passes_gates parseIPv4 (instant (t0 + 20 * Second)) pool_nil
     (snd (ProcessShare parseIPv4 (instant (t0 + Second)) pool_nil env0 share1)) share1"
    using share1_gates_nil(2) by (simp add: share1_first_nil)
  have "calls env0 = []"
    by (simp add: env0_def)
  with nil_store_accepts [OF nil share1_gates_nil(1), of "instant (t0 + 20 * Second)"]
    nil share1_gates_nil(1) again
  show ?thesis by simp
qed

text \<open>
  C2, as the code has it, in three parts.  The pool has a store and the share passes the
  shape, job and fraud gates.

  First: when the store answers that the id exists (true, no error), the result is
  ACCEPTED, \<open>duplicate share ignored\<close>, valid; the only store call made is that \<open>Exists\<close>,
  so nothing is saved.

  Second: the same share processed twice.  When the first time the store does not answer
  (true, no error) and saves the share without error, and the second time the share
  passes the gates again, in the state the first call left, and the store answers that
  the id exists (true, no error), then the first result is ACCEPTED, \<open>share accepted\<close>,
  the second is ACCEPTED, \<open>duplicate share ignored\<close>, both valid, and the two calls
  together make three store calls: \<open>Exists\<close>, the one \<open>Save\<close>, \<open>Exists\<close>.

  Third: \<open>DefaultShareValidator.ValidateShare\<close>, and \<open>ShareProcessor.Process\<close> around it,
  answer an id that the store reports as existing with DUPLICATE, \<open>duplicate share\<close>, not
  valid, and save nothing: the store is left as \<open>Exists\<close> left it.
\<close>

theorem duplicate_ignored:
  assumes "ShareStore p = Some sto" and "passes_gates parseIP clk p env s"
  shows "(Exists sto (now_exists clk) (ID s) (store env) = ((True, None), st1) \<longrightarrow>
            fst (ProcessShare parseIP clk p env s) =
              (\<lparr>Status = ShareAccepted, Description = ''duplicate share ignored'',
                Error = None, Valid = True\<rparr>, None) \<and>
            store (snd (ProcessShare parseIP clk p env s)) = st1 \<and>
            calls (snd (ProcessShare parseIP clk p env s)) = calls env @ [ExistsCall (ID s)]) \<and>
         (fst (Exists sto (now_exists clk) (ID s) (store env)) \<noteq> (True, None) \<and>
          fst (Save sto (now_save clk) s (snd (Exists sto (now_exists clk) (ID s) (store env)))) =
            None \<and>
          passes_gates parseIP clk' p (snd (ProcessShare parseIP clk p env s)) s \<and>
          fst (Exists sto (now_exists clk') (ID s)
                 (store (snd (ProcessShare parseIP clk p env s)))) = (True, None) \<longrightarrow>
            fst (ProcessShare parseIP clk p env s) =
              (\<lparr>Status = ShareAccepted, Description = ''share accepted'', Error = None,
                Valid = True\<rparr>, None) \<and>
            fst (ProcessShare parseIP clk' p (snd (ProcessShare parseIP clk p env s)) s) =
              (\<lparr>Status = ShareAccepted, Description = ''duplicate share ignored'',
                Error = None, Valid = True\<rparr>, None) \<and>
            calls (snd (ProcessShare parseIP clk' p (snd (ProcessShare parseIP clk p env s)) s)) =
              calls env @ [ExistsCall (ID s), SaveCall s, ExistsCall (ID s)]) \<and>
         (Exists sto at_exists (ID s) st = ((True, e), st') \<longrightarrow>
            ValidateShare h at_exists now sto s target d st =
              (\<lparr>Status = ShareDuplicate, Description = ''duplicate share'', Error = None,
                Valid = False\<rparr>, st') \<and>
            Process h at_exists now at_save sto s target d st =
              (\<lparr>Status = ShareDuplicate, Description = ''duplicate share'',
                Error = Some ''rejected: duplicate share'', Valid = False\<rparr>, st'))"
proof (intro conjI impI)
  assume "Exists sto (now_exists clk) (ID s) (store env) = ((True, None), st1)"
  then have one: "fst (ProcessShare parseIP clk p env s) =
              (\<lparr>Status = ShareAccepted, Description = ''duplicate share ignored'',
                Error = None, Valid = True\<rparr>, None) \<and>
            store (snd (ProcessShare parseIP clk p env s)) = st1 \<and>
            calls (snd (ProcessShare parseIP clk p env s)) = calls env @ [ExistsCall (ID s)]"
    using assms(1) by (simp add: ProcessShare_after_gates [OF assms(2)] Let_def)
  from one show "fst (ProcessShare parseIP clk p env s) =
              (\<lparr>Status = ShareAccepted, Description = ''duplicate share ignored'',
                Error = None, Valid = True\<rparr>, None)" by simp
  from one show "store (snd (ProcessShare parseIP clk p env s)) = st1" by simp
  from one show "calls (snd (ProcessShare parseIP clk p env s)) = calls env @ [ExistsCall (ID s)]"
    by simp
next
  let ?env' = "snd (ProcessShare parseIP clk p env s)"
  assume two: "fst (Exists sto (now_exists clk) (ID s) (store env)) \<noteq> (True, None) \<and>
          fst (Save sto (now_save clk) s (snd (Exists sto (now_exists clk) (ID s) (store env)))) =
            None \<and>
          passes_gates parseIP clk' p ?env' s \<and>
          fst (Exists sto (now_exists clk') (ID s) (store ?env')) = (True, None)"
  then have new: "\<not> (snd (fst (Exists sto (now_exists clk) (ID s) (store env))) = None \<and>
                    fst (fst (Exists sto (now_exists clk) (ID s) (store env))))"
    by (auto simp: prod_eq_iff)
  have first: "fst (ProcessShare parseIP clk p env s) =
              (\<lparr>Status = ShareAccepted, Description = ''share accepted'', Error = None,
                Valid = True\<rparr>, None) \<and>
         calls ?env' = calls env @ [ExistsCall (ID s), SaveCall s]"
    using assms(1) new two
    by (simp add: ProcessShare_after_gates [OF assms(2)] Let_def case_prod_beta
        split: option.splits)
  from two have gates': "passes_gates parseIP clk' p ?env' s" by simp
  from two obtain st3 where
    "Exists sto (now_exists clk') (ID s) (store ?env') = ((True, None), st3)"
    by (cases "Exists sto (now_exists clk') (ID s) (store ?env')") auto
  then have second: "fst (ProcessShare parseIP clk' p ?env' s) =
              (\<lparr>Status = ShareAccepted, Description = ''duplicate share ignored'',
                Error = None, Valid = True\<rparr>, None) \<and>
         calls (snd (ProcessShare parseIP clk' p ?env' s)) = calls ?env' @ [ExistsCall (ID s)]"
    using assms(1) by (simp add: ProcessShare_after_gates [OF gates'] Let_def)
  from first show "fst (ProcessShare parseIP clk p env s) =
              (\<lparr>Status = ShareAccepted, Description = ''share accepted'', Error = None,
                Valid = True\<rparr>, None)" by simp
  from second show "fst (ProcessShare parseIP clk' p ?env' s) =
              (\<lparr>Status = ShareAccepted, Description = ''duplicate share ignored'',
                Error = None, Valid = True\<rparr>, None)" by simp
  from first second show "calls (snd (ProcessShare parseIP clk' p ?env' s)) =
              calls env @ [ExistsCall (ID s), SaveCall s, ExistsCall (ID s)]" by simp
next
  assume dup: "Exists sto at_exists (ID s) st = ((True, e), st')"
  then show v: "ValidateShare h at_exists now sto s target d st =
              (\<lparr>Status = ShareDuplicate, Description = ''duplicate share'', Error = None,
                Valid = False\<rparr>, st')"
    by (simp add: ValidateShare_def IsDuplicate_def)
  then show "Process h at_exists now at_save sto s target d st =
              (\<lparr>Status = ShareDuplicate, Description = ''duplicate share'',
                Error = Some ''rejected: duplicate share'', Valid = False\<rparr>, st')"
    by (simp add: Process_def)
qed

lemma share1_gates_first:
  "passes_gates parseIPv4 (instant (t0 + Second)) pool1 env0 share1"
  by (simp add: passes_gates_def eval_defs scenario_defs time_defs)

lemma share1_store_calls:
  "fst (Exists internalStoreImpl (now_exists (instant (t0 + Second))) (ID share1) (store env0)) =
     (False, None)"
  "fst (Save internalStoreImpl (now_save (instant (t0 + Second))) share1
          (snd (Exists internalStoreImpl (now_exists (instant (t0 + Second))) (ID share1)
                 (store env0)))) = None"
  "fst (Exists internalStoreImpl (now_exists (instant (t0 + 20 * Second))) (ID share1)
          (store env1)) = (True, None)"
  by (simp_all add: eval_defs scenario_defs time_defs)

lemma share1_gates_again:
  "passes_gates parseIPv4 (instant (t0 + 20 * Second)) pool1 env1 share1"
  by (simp add: passes_gates_def eval_defs scenario_defs time_defs)

text \<open>
  The share is processed one second after \<open>t0\<close>, when the in-memory store does not know
  it and saves it, and again nineteen seconds later, when the nonce window of the fraud
  screen is over, the job still runs and the store remembers the id: accepted, then
  ignored as a duplicate, with the one \<open>Save\<close> of the first time.
\<close>

theorem duplicate_ignored_witness:
  "ShareStore pool1 = Some internalStoreImpl \<and>
   passes_gates parseIPv4 (instant (t0 + Second)) pool1 env0 share1 \<and>
   fst (Exists internalStoreImpl (t0 + Second) (ID share1) (store env0)) = (False, None) \<and>
   fst (Save internalStoreImpl (t0 + Second) share1
          (snd (Exists internalStoreImpl (t0 + Second) (ID share1) (store env0)))) = None \<and>
   passes_gates parseIPv4 (instant (t0 + 20 * Second)) pool1 env1 share1 \<and>
   fst (Exists internalStoreImpl (t0 + 20 * Second) (ID share1) (store env1)) = (True, None) \<and>
   fst (ProcessShare parseIPv4 (instant (t0 + Second)) pool1 env0 share1) =
     (\<lparr>Status = ShareAccepted, Description = ''share accepted'', Error = None,
       Valid = True\<rparr>, None) \<and>
   fst (ProcessShare parseIPv4 (instant (t0 + 20 * Second)) pool1 env1 share1) =
     (\<lparr>Status = ShareAccepted, Description = ''duplicate share ignored'', Error = None,
       Valid = True\<rparr>, None) \<and>
   calls (snd (ProcessShare parseIPv4 (instant (t0 + 20 * Second)) pool1 env1 share1)) =
     [ExistsCall ''share-1'', SaveCall share1, ExistsCall ''share-1'']"
proof -
  have sto: "ShareStore pool1 = Some internalStoreImpl"
    by (simp add: pool1_def)
  have after: "snd (ProcessShare parseIPv4 (instant (t0 + Second)) pool1 env0 share1) = env1"
    by (simp add: share1_first)
  have ids: "calls env0 = []" "ID share1 = ''share-1''"
    by (simp_all add: env0_def share1_def)
  have inst: "now_exists (instant t) = t" "now_save (instant t) = t" for t
    by (simp_all add: instant_def)
  note twice = duplicate_ignored [OF sto share1_gates_first,
      where clk' = "instant (t0 + 20 * Second)", THEN conjunct2, THEN conjunct1,
      unfolded after]
  have "fst (ProcessShare parseIPv4 (instant (t0 + Second)) pool1 env0 share1) =
          (\<lparr>Status = ShareAccepted, Description = ''share accepted'', Error = None,
            Valid = True\<rparr>, None) \<and>
        fst (ProcessShare parseIPv4 (instant (t0 + 20 * Second)) pool1 env1 share1) =
          (\<lparr>Status = ShareAccepted, Description = ''duplicate share ignored'', Error = None,
            Valid = True\<rparr>, None) \<and>
        calls (snd (ProcessShare parseIPv4 (instant (t0 + 20 * Second)) pool1 env1 share1)) =
          calls env0 @ [ExistsCall (ID share1), SaveCall share1, ExistsCall (ID share1)]"
    using twice share1_store_calls share1_gates_again by simp
  with sto share1_gates_first share1_gates_again share1_store_calls
  show ?thesis by (simp add: ids inst)
qed

text \<open>
  C2 as stated fails.  The id of \<open>share1\<close> is in the store, yet forty seconds after \<open>t0\<close>
  its job is over and the share is answered INVALID, \<open>job not active or expired\<close>; four
  seconds after it was accepted, the same share is answered INVALID by the fraud screen,
  being a nonce the miner has used within the window; and \<open>ShareProcessor.Process\<close>
  answers it DUPLICATE and not valid.
\<close>

theorem duplicate_counterexample:
  "fst (fst (Exists internalStoreImpl (t0 + 40 * Second) (ID share1) (store env1))) \<and>
   fst (ProcessShare parseIPv4 (instant (t0 + 40 * Second)) pool1 env1 share1) =
     (\<lparr>Status = ShareInvalid, Description = ''job not active or expired'',
       Error = Some ''job not active or expired'', Valid = False\<rparr>, None) \<and>
   fst (fst (Exists internalStoreImpl (t0 + 5 * Second) (ID share1) (store env1))) \<and>
   fst (ProcessShare parseIPv4 (instant (t0 + 5 * Second)) pool1 env1 share1) =
     (\<lparr>Status = ShareInvalid,
       Description = ''blocked by antifraud: nonce reuse by miner within window'',
       Error = Some ''antifraud rejection'', Valid = False\<rparr>, None) \<and>
   fst (fst (Exists internalStoreImpl (t0 + 20 * Second) (ID share1) (store env1))) \<and>
   fst (Process scenario_digest (t0 + 20 * Second) (t0 + 20 * Second) (t0 + 20 * Second)
          internalStoreImpl share1 ''0000'' (30 * Second) (store env1)) =
     \<lparr>Status = ShareDuplicate, Description = ''duplicate share'',
      Error = Some ''rejected: duplicate share'', Valid = False\<rparr>"
  by (simp add: Process_def ValidateShare_def IsDuplicate_def eval_defs scenario_defs time_defs)

text \<open>
  Why the second answer of the store is a condition.  \<open>share_old\<close> passes the gates twice
  and is saved twice: by the second time the in-memory store has forgotten it, its
  timestamp being more than 45 seconds old.
\<close>

lemma share_old_saved_twice:
  "fst (ProcessShare parseIPv4 (instant (t0 + Second)) pool1 env0 share_old) =
     (\<lparr>Status = ShareAccepted, Description = ''share accepted'', Error = None,
       Valid = True\<rparr>, None) \<and>
   fst (ProcessShare parseIPv4 (instant (t0 + 20 * Second)) pool1
          (snd (ProcessShare parseIPv4 (instant (t0 + Second)) pool1 env0 share_old))
          share_old) =
     (\<lparr>Status = ShareAccepted, Description = ''share accepted'', Error = None,
       Valid = True\<rparr>, None) \<and>
   calls (snd (ProcessShare parseIPv4 (instant (t0 + 20 * Second)) pool1
          (snd (ProcessShare parseIPv4 (instant (t0 + Second)) pool1 env0 share_old))
          share_old)) =
     [ExistsCall ''share-0'', SaveCall share_old, ExistsCall ''share-0'', SaveCall share_old]"
  by (simp add: eval_defs share_old_def scenario_defs time_defs)

text \<open>
  What \<open>JobManager.ValidateShare\<close> requires of a share it passes: a job that is known,
  active and not past its \<open>ExpiresAt\<close>, a result equal to the hash of the job's data
  followed by the nonce, and that hash below the job's target.
\<close>

lemma JobManager_ValidateShare_true:
  assumes "JobManager_ValidateShare h validUUID now jm jobID nonce result = Some True"
  shows "\<exists>job. jobs jm jobID = Some job \<and> Active job \<and> \<not> After now (ExpiresAt job) \<and>
               result = hashJob h (Data job) nonce \<and>
               checkDifficulty (hashJob h (Data job) nonce) (Target job)"
  using assms
  by (auto simp: JobManager_ValidateShare_def split: option.splits if_splits)

text \<open>The two sweeps of jobs: the manager's by \<open>ExpiresAt\<close>, the pool's by \<open>CreatedAt\<close>.\<close>

lemma CleanupExpiredJobs_keeps:
  "jobs (CleanupExpiredJobs now jm) k = Some j \<longleftrightarrow>
     jobs jm k = Some j \<and> \<not> After now (ExpiresAt j)"
  by (auto simp: CleanupExpiredJobs_def split: option.splits if_splits)

lemma removeExpiredJobs_keeps:
  "activeJobs (removeExpiredJobs now pc) k = Some j \<longleftrightarrow>
     activeJobs pc k = Some j \<and> \<not> Before (CreatedAt j) (Add now (- ttlJob pc))"
  by (auto simp: removeExpiredJobs_def split: option.splits if_splits)

text \<open>
  C3.  The code rejects on a verdict of level WARN.  \<open>share1\<close> was accepted one second
  after \<open>t0\<close>; sent again four seconds later it gets the verdict WARN, nonce reuse, and
  \<open>ProcessShare\<close> answers INVALID, \<open>blocked by antifraud\<close>, because it tests \<open>Flagged\<close>, which
  \<open>EvaluateShare\<close> sets on every WARN.  \<open>IsFraudulentNonce\<close>, on the same inspector state,
  miner and nonce, tests the level and says no.
\<close>

theorem warn_verdict_rejects:
  "fst (EvaluateShare parseIPv4 (t0 + 5 * Second) (t0 + 5 * Second) (t0 + 5 * Second)
          (inspector env1) (WorkerID share1) (IP share1) (Nonce share1) (Hash share1)
          (Timestamp share1)) =
     \<lparr>Flagged = True, Reason = ''nonce reuse by miner within window'', Level = Warn\<rparr> \<and>
   fst (ProcessShare parseIPv4 (instant (t0 + 5 * Second)) pool1 env1 share1) =
     (\<lparr>Status = ShareInvalid,
       Description = ''blocked by antifraud: nonce reuse by miner within window'',
       Error = Some ''antifraud rejection'', Valid = False\<rparr>, None) \<and>
   fst (IsFraudulentNonce parseIPv4 (t0 + 5 * Second) (t0 + 5 * Second) (t0 + 5 * Second)
          (t0 + 5 * Second) (inspector env1) (WorkerID share1) (Nonce share1)) = False"
  by (simp add: IsFraudulentNonce_def eval_defs scenario_defs time_defs)

text \<open>
  Of a job, \<open>Pool.ProcessShare\<close> reads \<open>CreatedAt\<close> and nothing else: two pools with the
  same store and TTL whose jobs under the share's id were created at the same time give
  the same result and the same effects, whatever the data and the targets of the jobs.
\<close>

lemma isJobActive_reads_CreatedAt_only:
  assumes "ttlJob (Engine p') = ttlJob (Engine p)"
    and "map_option CreatedAt (activeJobs (Engine p') k) =
         map_option CreatedAt (activeJobs (Engine p) k)"
  shows "isJobActive p' now k = isJobActive p now k"
  using assms
  by (cases "activeJobs (Engine p') k"; cases "activeJobs (Engine p) k")
     (auto simp: isJobActive_def)

lemma ProcessShare_reads_CreatedAt_only:
  assumes "ShareStore p' = ShareStore p" and "ttlJob (Engine p') = ttlJob (Engine p)"
    and "map_option CreatedAt (activeJobs (Engine p') (JobID s)) =
         map_option CreatedAt (activeJobs (Engine p) (JobID s))"
  shows "ProcessShare parseIP clk p' env s = ProcessShare parseIP clk p env s"
  unfolding ProcessShare_def assms(1) isJobActive_reads_CreatedAt_only [OF assms(2,3)]
  by (rule refl)

text \<open>
  C1.  \<open>Pool.ProcessShare\<close> has no hash gate.  \<open>share1\<close> is accepted although the SHA-256
  of its job's data followed by its nonce, \<open>aa00000000\<close>, in hex
  \<open>01b9cad0\<dots>e442\<close>, is not below the target of the job.  \<open>IsValidHash\<close>, the check of the
  validator, hashes the job id, not the job data.
\<close>

theorem accepted_without_hash_check:
  "activeJobs (Engine pool1) (JobID share1) = Some job1 \<and>
   Data job1 @ Nonce share1 = ''aa00000000'' \<and>
   \<not> checkDifficulty ''01b9cad010c0bdf4775b87d3fc2c2322629cf710ea324c539b16958f7010e442''
       (Target job1) \<and>
   fst (ProcessShare parseIPv4 (instant (t0 + Second)) pool1 env0 share1) =
     (\<lparr>Status = ShareAccepted, Description = ''share accepted'', Error = None,
       Valid = True\<rparr>, None) \<and>
   IsValidHash h share1 (Target job1) =
     checkDifficulty (h ''job-100000000'') (Target job1)"
proof (intro conjI)
  show "activeJobs (Engine pool1) (JobID share1) = Some job1"
    by (simp add: pool1_def scenario_defs)
  show "Data job1 @ Nonce share1 = ''aa00000000''"
    by (simp add: scenario_defs)
  show "\<not> checkDifficulty
        ''01b9cad010c0bdf4775b87d3fc2c2322629cf710ea324c539b16958f7010e442'' (Target job1)"
    by (simp add: checkDifficulty_def job1_def)
  show "fst (ProcessShare parseIPv4 (instant (t0 + Second)) pool1 env0 share1) =
     (\<lparr>Status = ShareAccepted, Description = ''share accepted'', Error = None,
       Valid = True\<rparr>, None)"
    by (simp add: share1_first)
  show "IsValidHash h share1 (Target job1) =
     checkDifficulty (h ''job-100000000'') (Target job1)"
    by (simp add: IsValidHash_def calculateHash_def checkDifficulty_def scenario_defs)
qed

section \<open>The fraud inspector\<close>

lemma LogRequest_level:
  "fst (LogRequest parseIP t st (extractSubnet parseIP ip) nonce) = Block \<longleftrightarrow>
     rate_blocked parseIP st ip nonce t"
  by (auto simp: LogRequest_def Let_def rate_blocked_def subnet_window_def token_window_def
      subnet_key_def maxRequestsPerSubnet_def nonceReuseWarn_def nonceReuseBlock_def)

lemma LogRequest_Subnets:
  "Subnets (snd (LogRequest parseIP t st (extractSubnet parseIP ip) nonce)) =
     (Subnets st)(subnet_key parseIP ip \<mapsto> subnet_window st (subnet_key parseIP ip) t)"
  by (simp add: LogRequest_def Let_def subnet_window_def subnet_key_def)

lemma LogRequest_Tokens:
  "Tokens (snd (LogRequest parseIP t st (extractSubnet parseIP ip) nonce)) =
     (Tokens st)(nonce \<mapsto> token_window st nonce t)"
  by (simp add: LogRequest_def Let_def token_window_def)

lemma LogRequest_NonceMap:
  "NonceMap (snd (LogRequest parseIP t st sub nonce)) = NonceMap st"
  by (simp add: LogRequest_def Let_def)

lemma LogRequest_Greylist:
  "Greylist (snd (LogRequest parseIP t st (extractSubnet parseIP ip) nonce)) =
     (if 20 < length (subnet_window st (subnet_key parseIP ip) t)
      then (Greylist st)(subnet_key parseIP ip \<mapsto> t) else Greylist st)"
  by (simp add: LogRequest_def Let_def subnet_window_def subnet_key_def maxRequestsPerSubnet_def)

lemma checkNonceReuse_frame:
  "Subnets (snd (checkNonceReuse st m n t)) = Subnets st"
  "Greylist (snd (checkNonceReuse st m n t)) = Greylist st"
  "Tokens (snd (checkNonceReuse st m n t)) = Tokens st"
  "NonceMap (snd (checkNonceReuse st m n t)) =
     (NonceMap st)(m \<mapsto> (prune_nonces (nonces_of st m) t)(n \<mapsto> t))"
  by (simp_all add: checkNonceReuse_def Let_def nonces_of_def)

lemma checkNonceReuse_verdict:
  "fst (checkNonceReuse st m n t) =
     (if prune_nonces (nonces_of st m) t n = None then (NoThreat, [])
      else (Warn, ''nonce reuse by miner within window''))"
  by (simp add: checkNonceReuse_def Let_def nonces_of_def)

lemma markToken_frame:
  "Subnets (snd (markToken st h t)) = Subnets st"
  "Greylist (snd (markToken st h t)) = Greylist st"
  "NonceMap (snd (markToken st h t)) = NonceMap st"
  "Tokens (snd (markToken st h t)) =
     (if h = [] then Tokens st else (Tokens st)(h \<mapsto> token_window st h t))"
  by (simp_all add: markToken_def Let_def token_window_def)

lemma markToken_reason:
  "snd (fst (markToken st h t)) \<noteq> ''rate limit subnet/24 exceeded (greylisted)''"
  by (simp add: markToken_def Let_def)

text \<open>An evaluation that fails the clock-skew test returns before anything is written.\<close>

lemma EvaluateShare_skew:
  "\<not> no_skew now ts \<Longrightarrow>
   EvaluateShare parseIP now at_log at_check g minerID ip nonce hash ts =
     (\<lparr>Flagged = True, Reason = ''clock skew out of tolerance'', Level = Warn\<rparr>,
      LaunchInspector g)"
  by (auto simp: EvaluateShare_def no_skew_def Let_def)

lemma EvaluateShare_blocked:
  assumes "no_skew now ts" and "rate_blocked parseIP (LaunchInspector g) ip nonce at_log"
  shows "fst (EvaluateShare parseIP now at_log at_check g minerID ip nonce hash ts) =
     \<lparr>Flagged = True, Reason = ''rate limit subnet/24 exceeded (greylisted)'', Level = Block\<rparr>"
proof -
  have "fst (LogRequest parseIP at_log (LaunchInspector g) (extractSubnet parseIP ip) nonce) =
          Block"
    using assms(2) by (simp add: LogRequest_level)
  with assms(1) show ?thesis
    by (simp add: EvaluateShare_def no_skew_def Let_def case_prod_beta)
qed

lemma EvaluateShare_not_blocked_reason:
  assumes "no_skew now ts" and "\<not> rate_blocked parseIP (LaunchInspector g) ip nonce at_log"
  shows "Reason (fst (EvaluateShare parseIP now at_log at_check g minerID ip nonce hash ts)) \<noteq>
           ''rate limit subnet/24 exceeded (greylisted)''"
proof -
  have "fst (LogRequest parseIP at_log (LaunchInspector g) (extractSubnet parseIP ip) nonce) \<noteq>
          Block"
    using assms(2) by (simp add: LogRequest_level)
  with assms(1) show ?thesis
    by (simp add: EvaluateShare_def no_skew_def Let_def case_prod_beta
        checkNonceReuse_verdict markToken_reason)
qed

text \<open>The four maps after an evaluation that passes the clock-skew test.\<close>

lemma EvaluateShare_Subnets:
  assumes "no_skew now ts"
  shows "Subnets (snd (EvaluateShare parseIP now at_log at_check g minerID ip nonce hash ts)) =
     (Subnets (LaunchInspector g))
       (subnet_key parseIP ip \<mapsto>
          subnet_window (LaunchInspector g) (subnet_key parseIP ip) at_log)"
  using assms
  by (simp add: EvaluateShare_def no_skew_def Let_def case_prod_beta
      markToken_frame checkNonceReuse_frame LogRequest_Subnets)

lemma EvaluateShare_Greylist:
  assumes "no_skew now ts"
  shows "Greylist (snd (EvaluateShare parseIP now at_log at_check g minerID ip nonce hash ts)) =
     (if 20 < length (subnet_window (LaunchInspector g) (subnet_key parseIP ip) at_log)
      then (Greylist (LaunchInspector g))(subnet_key parseIP ip \<mapsto> at_log)
      else Greylist (LaunchInspector g))"
  using assms
  by (simp add: EvaluateShare_def no_skew_def Let_def case_prod_beta
      markToken_frame checkNonceReuse_frame LogRequest_Greylist)

lemma EvaluateShare_Tokens_nohash:
  assumes "no_skew now ts"
  shows "Tokens (snd (EvaluateShare parseIP now at_log at_check g minerID ip nonce [] ts)) =
     (Tokens (LaunchInspector g))(nonce \<mapsto> token_window (LaunchInspector g) nonce at_log)"
  using assms
  by (simp add: EvaluateShare_def no_skew_def Let_def case_prod_beta
      markToken_frame checkNonceReuse_frame LogRequest_Tokens)

text \<open>
  The clock-skew test passes exactly when the timestamp is set and within two minutes of
  the clock; \<open>pruneOld\<close> keeps the entries no older than 15 s; and for an IPv4 address
  that reads back as itself the key of the subnet is the address with its last byte
  zeroed.
\<close>

lemma no_skew_iff: "no_skew now ts \<longleftrightarrow> ts \<noteq> 0 \<and> \<bar>now - ts\<bar> \<le> 2 * Minute"
  by (auto simp: no_skew_def time_defs clockSkewTolerance_def Minute_def Second_def
      maxDuration_def minDuration_def)

lemma pruneOld_filter: "pruneOld w now = filter (\<lambda>t. now - t \<le> 15 * Second) w"
proof -
  have "Sub now t \<le> windowSpan \<longleftrightarrow> now - t \<le> 15 * Second" for t
    by (auto simp: Sub_def windowSpan_def Second_def maxDuration_def minDuration_def)
  then show ?thesis
    by (simp add: pruneOld_def)
qed

lemma subnet_key_V4:
  assumes "parseIP ip = Some (V4 a b c d)" and "parseIP (dotted a b c 0) = Some (V4 a b c 0)"
  shows "subnet_key parseIP ip = dotted a b c 0"
  using assms by (simp add: subnet_key_def extractSubnet_def)

text \<open>
  C6, as the code has it.  The evaluation is of a share whose timestamp is set and lies
  within two minutes of the clock, so that the clock-skew test passes.  The window of
  the submitter's subnet is then what it was, without the entries more than 15 s older
  than the reading of \<open>LogRequest\<close>, followed by that reading; for an IPv4 address
  \<open>a.b.c.d\<close> the subnet is \<open>a.b.c.0\<close>.  When that window holds more than 20 entries, the
  verdict is BLOCK with the reason \<open>rate limit subnet/24 exceeded (greylisted)\<close> and the
  subnet is put on the greylist at that reading.  As long as the window of the nonce in
  the token map, pruned and extended in the same way, holds fewer than 10 entries,
  that reason is given exactly when the window of the subnet holds more than 20.
\<close>

theorem subnet_rate_rule:
  assumes "ts \<noteq> 0" and "\<bar>now - ts\<bar> \<le> 2 * Minute"
  shows "Subnets (snd (EvaluateShare parseIP now at_log at_check g minerID ip nonce hash ts))
           (subnet_key parseIP ip) =
           Some (filter (\<lambda>t. at_log - t \<le> 15 * Second)
                   (slice_of (Subnets (LaunchInspector g)) (subnet_key parseIP ip)) @
                 [at_log]) \<and>
         (parseIP ip = Some (V4 a b c d) \<and> parseIP (dotted a b c 0) = Some (V4 a b c 0) \<longrightarrow>
          subnet_key parseIP ip =
            decimal a @ ''.'' @ decimal b @ ''.'' @ decimal c @ ''.0'') \<and>
         (20 < length (filter (\<lambda>t. at_log - t \<le> 15 * Second)
                         (slice_of (Subnets (LaunchInspector g)) (subnet_key parseIP ip)) @
                       [at_log]) \<longrightarrow>
          fst (EvaluateShare parseIP now at_log at_check g minerID ip nonce hash ts) =
            \<lparr>Flagged = True, Reason = ''rate limit subnet/24 exceeded (greylisted)'',
             Level = Block\<rparr> \<and>
          Greylist (snd (EvaluateShare parseIP now at_log at_check g minerID ip nonce hash ts))
            (subnet_key parseIP ip) = Some at_log) \<and>
         (length (filter (\<lambda>t. at_log - t \<le> 15 * Second)
                    (slice_of (Tokens (LaunchInspector g)) nonce) @ [at_log]) < 10 \<longrightarrow>
          (Reason (fst (EvaluateShare parseIP now at_log at_check g minerID ip nonce hash ts)) =
             ''rate limit subnet/24 exceeded (greylisted)'' \<longleftrightarrow>
           20 < length (filter (\<lambda>t. at_log - t \<le> 15 * Second)
                          (slice_of (Subnets (LaunchInspector g)) (subnet_key parseIP ip)) @
                        [at_log])))"
proof -
  let ?E = "EvaluateShare parseIP now at_log at_check g minerID ip nonce hash ts"
  let ?key = "subnet_key parseIP ip"
  let ?R = "''rate limit subnet/24 exceeded (greylisted)''"
  from assms have skew: "no_skew now ts"
    by (simp add: no_skew_iff)
  have window: "subnet_window (LaunchInspector g) ?key at_log =
      filter (\<lambda>t. at_log - t \<le> 15 * Second) (slice_of (Subnets (LaunchInspector g)) ?key) @
      [at_log]"
    by (simp add: subnet_window_def pruneOld_filter)
  have tokens: "token_window (LaunchInspector g) nonce at_log =
      filter (\<lambda>t. at_log - t \<le> 15 * Second) (slice_of (Tokens (LaunchInspector g)) nonce) @
      [at_log]"
    by (simp add: token_window_def pruneOld_filter)
  have appended: "Subnets (snd ?E) ?key = Some (subnet_window (LaunchInspector g) ?key at_log)"
    by (simp add: EvaluateShare_Subnets [OF skew])
  have key: "?key = decimal a @ ''.'' @ decimal b @ ''.'' @ decimal c @ ''.0''"
    if "parseIP ip = Some (V4 a b c d) \<and> parseIP (dotted a b c 0) = Some (V4 a b c 0)"
    using that subnet_key_V4 [of parseIP ip a b c d] by (simp add: dotted_def)
  have over: "fst ?E = \<lparr>Flagged = True, Reason = ?R, Level = Block\<rparr> \<and>
              Greylist (snd ?E) ?key = Some at_log"
    if full: "20 < length (subnet_window (LaunchInspector g) ?key at_log)"
  proof -
    from full have "rate_blocked parseIP (LaunchInspector g) ip nonce at_log"
      by (simp add: rate_blocked_def)
    from EvaluateShare_blocked [OF skew this] full show ?thesis
      by (simp add: EvaluateShare_Greylist [OF skew])
  qed
  have only: "Reason (fst ?E) = ?R \<longleftrightarrow>
              20 < length (subnet_window (LaunchInspector g) ?key at_log)"
    if few: "length (token_window (LaunchInspector g) nonce at_log) < 10"
  proof (cases "20 < length (subnet_window (LaunchInspector g) ?key at_log)")
    case True
    with over show ?thesis by simp
  next
    case False
    with few have "\<not> rate_blocked parseIP (LaunchInspector g) ip nonce at_log"
      by (simp add: rate_blocked_def)
    from EvaluateShare_not_blocked_reason [OF skew this] False show ?thesis by simp
  qed
  from appended key over only show ?thesis
    unfolding window tokens by blast
qed

text \<open>Running the scenarios: one field of the inspector at a time.\<close>

lemma no_skew_same: "t \<noteq> 0 \<Longrightarrow> no_skew t t"
  by (simp add: no_skew_def time_defs clockSkewTolerance_def Minute_def Second_def
      maxDuration_def minDuration_def)

lemma evaluate_Subnets:
  "req_at r \<noteq> 0 \<Longrightarrow>
   slice_of (Subnets (snd (evaluate g r))) k =
     (if k = subnet_key parseIPv4 (req_ip r)
      then pruneOld (slice_of (Subnets (LaunchInspector g)) k) (req_at r) @ [req_at r]
      else slice_of (Subnets (LaunchInspector g)) k)"
  by (simp add: evaluate_def EvaluateShare_Subnets no_skew_same slice_of_def subnet_window_def)

lemma evaluate_Tokens:
  "req_at r \<noteq> 0 \<Longrightarrow> req_hash r = [] \<Longrightarrow>
   slice_of (Tokens (snd (evaluate g r))) k =
     (if k = req_nonce r
      then pruneOld (slice_of (Tokens (LaunchInspector g)) k) (req_at r) @ [req_at r]
      else slice_of (Tokens (LaunchInspector g)) k)"
  by (simp add: evaluate_def EvaluateShare_Tokens_nohash no_skew_same slice_of_def
      token_window_def)

lemma evaluate_Greylist:
  "req_at r \<noteq> 0 \<Longrightarrow>
   Greylist (snd (evaluate g r)) k =
     (if k = subnet_key parseIPv4 (req_ip r)
      then (if 20 < length (pruneOld (slice_of (Subnets (LaunchInspector g)) k) (req_at r) @
                             [req_at r])
            then Some (req_at r) else Greylist (LaunchInspector g) k)
      else Greylist (LaunchInspector g) k)"
  by (simp add: evaluate_def EvaluateShare_Greylist no_skew_same subnet_window_def)

lemma LaunchInspector_simps:
  "LaunchInspector (Some st) = st" "Subnets (LaunchInspector None) = Map.empty"
  "Tokens (LaunchInspector None) = Map.empty" "Greylist (LaunchInspector None) = Map.empty"
  "slice_of Map.empty k = []"
  by (simp_all add: LaunchInspector_def empty_state_def slice_of_def)

lemmas parse_defs = subnet_key_def extractSubnet_def dotted_def parseIPv4_def TrimSpace_def
  is_space_def octet_def is_digit_def digits_value_def

lemmas run_defs = burst_def burst_request_def after_burst_def echo_def echo_request_def
  after_echo_def request21_def request10_def Millisecond_def pruneOld_def windowSpan_def

lemma after_burst_Subnets:
  "slice_of (Subnets after_burst) ''10.0.0.0'' =
     map (\<lambda>k. t0 + int k * (500 * Millisecond))
       [1, 2, 3, 4, 5, 6, 7, 8, 9, 10, 11, 12, 13, 14, 15, 16, 17, 18, 19, 20]"
  by (simp add: run_defs evaluate_Subnets LaunchInspector_simps parse_defs scenario_defs
      time_defs)

lemma after_burst_Tokens: "slice_of (Tokens after_burst) ''00000031'' = []"
  by (simp add: run_defs evaluate_Tokens LaunchInspector_simps scenario_defs)

lemma after_echo_Tokens:
  "slice_of (Tokens after_echo) ''deadbeef'' =
     map (\<lambda>k. t0 + int k * Second) [1, 2, 3, 4, 5, 6, 7, 8, 9]"
  by (simp add: run_defs evaluate_Tokens LaunchInspector_simps scenario_defs time_defs)

lemma after_echo_Subnets: "slice_of (Subnets after_echo) ''10.0.10.0'' = []"
  by (simp add: run_defs evaluate_Subnets LaunchInspector_simps parse_defs scenario_defs)

lemma after_echo_Greylist: "Greylist after_echo ''10.0.10.0'' = None"
  by (simp add: run_defs evaluate_Greylist LaunchInspector_simps parse_defs scenario_defs)

lemma request21_facts:
  "subnet_key parseIPv4 (req_ip request21) = ''10.0.0.0''"
  "no_skew (req_at request21) (req_at request21)"
  "length (subnet_window after_burst ''10.0.0.0'' (req_at request21)) = 21"
  "length (token_window after_burst (req_nonce request21) (req_at request21)) = 1"
  by (simp_all add: request21_def parse_defs no_skew_same subnet_window_def token_window_def
      after_burst_Subnets after_burst_Tokens pruneOld_def windowSpan_def Millisecond_def
      scenario_defs time_defs)

lemma request10_facts:
  "subnet_key parseIPv4 (req_ip request10) = ''10.0.10.0''"
  "no_skew (req_at request10) (req_at request10)"
  "length (subnet_window after_echo ''10.0.10.0'' (req_at request10)) = 1"
  "length (token_window after_echo (req_nonce request10) (req_at request10)) = 10"
  by (simp_all add: request10_def echo_request_def parse_defs no_skew_same subnet_window_def
      token_window_def after_echo_Subnets after_echo_Tokens pruneOld_def windowSpan_def
      scenario_defs time_defs)

lemma burst_key:
  "parseIPv4 ''10.0.0.21'' = Some (V4 10 0 0 21)"
  "parseIPv4 (dotted 10 0 0 0) = Some (V4 10 0 0 0)"
  "decimal 10 @ ''.'' @ decimal 0 @ ''.'' @ decimal 0 @ ''.0'' = ''10.0.0.0''"
  by (simp_all add: parse_defs)

lemma burst_windows:
  "filter (\<lambda>t. t0 + 11 * Second - t \<le> 15 * Second)
     (slice_of (Subnets (LaunchInspector (Some after_burst))) ''10.0.0.0'') =
   map (\<lambda>k. t0 + int k * (500 * Millisecond))
     [1, 2, 3, 4, 5, 6, 7, 8, 9, 10, 11, 12, 13, 14, 15, 16, 17, 18, 19, 20]"
  "filter (\<lambda>t. t0 + 21 * Second - t \<le> 15 * Second)
     (slice_of (Subnets (LaunchInspector (Some after_burst))) ''10.0.0.0'') =
   map (\<lambda>k. t0 + int k * (500 * Millisecond)) [12, 13, 14, 15, 16, 17, 18, 19, 20]"
  "slice_of (Tokens (LaunchInspector (Some after_burst))) ''00000031'' = []"
  by (simp_all add: LaunchInspector_simps after_burst_Subnets after_burst_Tokens
      Millisecond_def Second_def)

text \<open>
  After the burst the window of 10.0.0.0 holds twenty entries, from half a second to ten
  seconds after \<open>t0\<close>.  A request from 10.0.0.21 eleven seconds after \<open>t0\<close> finds them all
  within 15 s: the window grows to twenty-one, the verdict is BLOCK and the subnet is
  greylisted.  The same request twenty-one seconds after \<open>t0\<close> instead finds the first
  eleven too old: the window is the last nine and the new reading, and the reason is
  not given.
\<close>

theorem subnet_rate_rule_witness:
  "t0 + 11 * Second \<noteq> 0 \<and> \<bar>t0 + 11 * Second - (t0 + 11 * Second)\<bar> \<le> 2 * Minute \<and>
   t0 + 21 * Second \<noteq> 0 \<and> \<bar>t0 + 21 * Second - (t0 + 21 * Second)\<bar> \<le> 2 * Minute \<and>
   parseIPv4 ''10.0.0.21'' = Some (V4 10 0 0 21) \<and>
   parseIPv4 (dotted 10 0 0 0) = Some (V4 10 0 0 0) \<and>
   subnet_key parseIPv4 ''10.0.0.21'' = ''10.0.0.0'' \<and>
   slice_of (Subnets after_burst) ''10.0.0.0'' =
     map (\<lambda>k. t0 + int k * (500 * Millisecond))
       [1, 2, 3, 4, 5, 6, 7, 8, 9, 10, 11, 12, 13, 14, 15, 16, 17, 18, 19, 20] \<and>
   slice_of (Tokens after_burst) ''00000031'' = [] \<and>
   Subnets (snd (evaluate (Some after_burst) request21)) ''10.0.0.0'' =
     Some (map (\<lambda>k. t0 + int k * (500 * Millisecond))
             [1, 2, 3, 4, 5, 6, 7, 8, 9, 10, 11, 12, 13, 14, 15, 16, 17, 18, 19, 20] @
           [t0 + 11 * Second]) \<and>
   fst (evaluate (Some after_burst) request21) =
     \<lparr>Flagged = True, Reason = ''rate limit subnet/24 exceeded (greylisted)'',
      Level = Block\<rparr> \<and>
   Greylist (snd (evaluate (Some after_burst) request21)) ''10.0.0.0'' =
     Some (t0 + 11 * Second) \<and>
   Subnets (snd (evaluate (Some after_burst) request_late)) ''10.0.0.0'' =
     Some (map (\<lambda>k. t0 + int k * (500 * Millisecond)) [12, 13, 14, 15, 16, 17, 18, 19, 20] @
           [t0 + 21 * Second]) \<and>
   Reason (fst (evaluate (Some after_burst) request_late)) \<noteq>
     ''rate limit subnet/24 exceeded (greylisted)''"
proof -
  have stamps: "t0 + 11 * Second \<noteq> 0" "\<bar>t0 + 11 * Second - (t0 + 11 * Second)\<bar> \<le> 2 * Minute"
    "t0 + 21 * Second \<noteq> 0" "\<bar>t0 + 21 * Second - (t0 + 21 * Second)\<bar> \<le> 2 * Minute"
    by (simp_all add: scenario_defs)
  have runs:
    "evaluate (Some after_burst) request21 =
       EvaluateShare parseIPv4 (t0 + 11 * Second) (t0 + 11 * Second) (t0 + 11 * Second)
         (Some after_burst) ''w21'' ''10.0.0.21'' ''00000031'' [] (t0 + 11 * Second)"
    "evaluate (Some after_burst) request_late =
       EvaluateShare parseIPv4 (t0 + 21 * Second) (t0 + 21 * Second) (t0 + 21 * Second)
         (Some after_burst) ''w21'' ''10.0.0.21'' ''00000031'' [] (t0 + 21 * Second)"
    by (simp_all add: evaluate_def request21_def request_late_def)
  note at11 = subnet_rate_rule [OF stamps(1,2), where parseIP = parseIPv4
      and at_log = "t0 + 11 * Second" and at_check = "t0 + 11 * Second"
      and g = "Some after_burst" and minerID = "''w21''" and ip = "''10.0.0.21''"
      and nonce = "''00000031''" and hash = "[]" and a = 10 and b = 0 and c = 0 and d = 21,
      folded runs]
  note at21 = subnet_rate_rule [OF stamps(3,4), where parseIP = parseIPv4
      and at_log = "t0 + 21 * Second" and at_check = "t0 + 21 * Second"
      and g = "Some after_burst" and minerID = "''w21''" and ip = "''10.0.0.21''"
      and nonce = "''00000031''" and hash = "[]" and a = 10 and b = 0 and c = 0 and d = 21,
      folded runs]
  from at11 burst_key have key: "subnet_key parseIPv4 ''10.0.0.21'' = ''10.0.0.0''"
    by simp
  from at11 have
    "Subnets (snd (evaluate (Some after_burst) request21)) ''10.0.0.0'' =
       Some (map (\<lambda>k. t0 + int k * (500 * Millisecond))
               [1, 2, 3, 4, 5, 6, 7, 8, 9, 10, 11, 12, 13, 14, 15, 16, 17, 18, 19, 20] @
             [t0 + 11 * Second]) \<and>
     fst (evaluate (Some after_burst) request21) =
       \<lparr>Flagged = True, Reason = ''rate limit subnet/24 exceeded (greylisted)'',
        Level = Block\<rparr> \<and>
     Greylist (snd (evaluate (Some after_burst) request21)) ''10.0.0.0'' =
       Some (t0 + 11 * Second)"
    unfolding key burst_windows by simp
  moreover from at21 have
    "Subnets (snd (evaluate (Some after_burst) request_late)) ''10.0.0.0'' =
       Some (map (\<lambda>k. t0 + int k * (500 * Millisecond)) [12, 13, 14, 15, 16, 17, 18, 19, 20] @
             [t0 + 21 * Second]) \<and>
     Reason (fst (evaluate (Some after_burst) request_late)) \<noteq>
       ''rate limit subnet/24 exceeded (greylisted)''"
    unfolding key burst_windows by simp
  ultimately show ?thesis
    using stamps burst_key(1,2) key after_burst_Subnets after_burst_Tokens by blast
qed

text \<open>
  C6 as stated fails.  An evaluation of a share three minutes old returns at the
  clock-skew test and leaves the inspector as it was, nothing appended.  The reason
  given on the twenty-first request of the burst is not the text of the claim.  And
  the tenth request of the echo draws the same verdict and reason, the window of its
  own subnet holding the one entry just appended and the subnet being on no greylist:
  \<open>LogRequest\<close> also answers \<open>Block\<close> when the nonce has been seen ten times, and
  \<open>EvaluateShare\<close> words every \<open>Block\<close> of \<open>LogRequest\<close> alike.
\<close>

theorem subnet_rate_counterexample:
  "EvaluateShare parseIPv4 (t0 + 11 * Second) (t0 + 11 * Second) (t0 + 11 * Second)
     (Some after_burst) ''w21'' ''10.0.0.21'' ''00000031'' []
     (t0 + 11 * Second - 3 * Minute) =
     (\<lparr>Flagged = True, Reason = ''clock skew out of tolerance'', Level = Warn\<rparr>,
      after_burst) \<and>
   Reason (fst (evaluate (Some after_burst) request21)) =
     ''rate limit subnet/24 exceeded (greylisted)'' \<and>
   ''rate limit subnet/24 exceeded (greylisted)'' \<noteq> ''rate limit subnet/24 exceeded'' \<and>
   fst (evaluate (Some after_echo) request10) =
     \<lparr>Flagged = True, Reason = ''rate limit subnet/24 exceeded (greylisted)'',
      Level = Block\<rparr> \<and>
   subnet_key parseIPv4 (req_ip request10) = ''10.0.10.0'' \<and>
   Subnets (snd (evaluate (Some after_echo) request10)) ''10.0.10.0'' =
     Some [t0 + 10 * Second] \<and>
   Greylist (snd (evaluate (Some after_echo) request10)) ''10.0.10.0'' = None"
proof (intro conjI)
  have "\<not> no_skew (t0 + 11 * Second) (t0 + 11 * Second - 3 * Minute)"
    by (simp add: no_skew_def clockSkewTolerance_def scenario_defs time_defs)
  from EvaluateShare_skew [OF this]
  show "EvaluateShare parseIPv4 (t0 + 11 * Second) (t0 + 11 * Second) (t0 + 11 * Second)
     (Some after_burst) ''w21'' ''10.0.0.21'' ''00000031'' []
     (t0 + 11 * Second - 3 * Minute) =
     (\<lparr>Flagged = True, Reason = ''clock skew out of tolerance'', Level = Warn\<rparr>,
      after_burst)"
    by (simp add: LaunchInspector_simps)
  have "rate_blocked parseIPv4 (LaunchInspector (Some after_burst)) (req_ip request21)
          (req_nonce request21) (req_at request21)"
    by (simp add: rate_blocked_def request21_facts LaunchInspector_simps)
  from EvaluateShare_blocked [OF request21_facts(2) this]
  show "Reason (fst (evaluate (Some after_burst) request21)) =
     ''rate limit subnet/24 exceeded (greylisted)''"
    by (simp add: evaluate_def)
  show "''rate limit subnet/24 exceeded (greylisted)'' \<noteq> ''rate limit subnet/24 exceeded''"
    by simp
  have "rate_blocked parseIPv4 (LaunchInspector (Some after_echo)) (req_ip request10)
          (req_nonce request10) (req_at request10)"
    by (simp add: rate_blocked_def request10_facts LaunchInspector_simps)
  from EvaluateShare_blocked [OF request10_facts(2) this]
  show "fst (evaluate (Some after_echo) request10) =
     \<lparr>Flagged = True, Reason = ''rate limit subnet/24 exceeded (greylisted)'',
      Level = Block\<rparr>"
    by (simp add: evaluate_def)
  show "subnet_key parseIPv4 (req_ip request10) = ''10.0.10.0''"
    by (simp add: request10_facts)
  have at10: "req_at request10 = t0 + 10 * Second"
    by (simp add: request10_def echo_request_def)
  have "Subnets (snd (evaluate (Some after_echo) request10)) ''10.0.10.0'' =
     Some [req_at request10]"
    by (simp add: evaluate_def EvaluateShare_Subnets [OF request10_facts(2)]
        request10_facts(1) subnet_window_def LaunchInspector_simps after_echo_Subnets
        pruneOld_def)
  then show "Subnets (snd (evaluate (Some after_echo) request10)) ''10.0.10.0'' =
     Some [t0 + 10 * Second]"
    by (simp add: at10)
  show "Greylist (snd (evaluate (Some after_echo) request10)) ''10.0.10.0'' = None"
    using request10_facts(3)
    by (simp add: evaluate_def EvaluateShare_Greylist [OF request10_facts(2)]
        request10_facts(1) LaunchInspector_simps after_echo_Greylist)
qed

section \<open>The sweeper\<close>

lemma cleanGreylist_frame:
  "Subnets (cleanGreylist t st) = Subnets st" "Tokens (cleanGreylist t st) = Tokens st"
  "NonceMap (cleanGreylist t st) = NonceMap st"
  by (simp_all add: cleanGreylist_def)

lemma cleanGreylist_Greylist:
  "Greylist (cleanGreylist t st) k = Some a \<longleftrightarrow>
     Greylist st k = Some a \<and> Sub t a \<le> greylistTimeout"
  by (auto simp: cleanGreylist_def split: option.splits if_splits)

text \<open>
  C8, as the code has it.  The sweeper touches the greylist only.  After any number of
  its iterations the subnet, token and nonce maps are what they were, and a greylist
  entry is there exactly if it was there before and was not older than three minutes
  at any of the ticks.
\<close>

theorem sweeps_only_greylist:
  "Subnets (sweeps ts st) = Subnets st \<and> Tokens (sweeps ts st) = Tokens st \<and>
   NonceMap (sweeps ts st) = NonceMap st \<and>
   (Greylist (sweeps ts st) k = Some a \<longleftrightarrow>
      Greylist st k = Some a \<and> list_all (\<lambda>t. Sub t a \<le> greylistTimeout) ts)"
proof (induction ts arbitrary: st)
  case Nil
  show ?case by simp
next
  case (Cons t ts)
  from Cons.IH [of "cleanGreylist t st"] show ?case
    by (auto simp: cleanGreylist_frame cleanGreylist_Greylist)
qed

text \<open>
  C8 as stated fails.  Four hundred and forty-nine seconds after the only evaluation,
  with five sweeps and no submission since, its entries are still in the subnet, token
  and nonce maps, though the bound of the claim, the larger of window and greylist
  timeout plus one sweep interval, is 270 seconds.
\<close>

theorem sweeps_counterexample:
  "ticks = [t0 + 90 * Second, t0 + 180 * Second, t0 + 270 * Second, t0 + 360 * Second,
            t0 + 450 * Second] \<and>
   max windowSpan greylistTimeout + sweepInterval < (t0 + 450 * Second) - (t0 + Second) \<and>
   Subnets (sweeps ticks inspector1) ''10.0.0.0'' = Some [t0 + Second] \<and>
   Tokens (sweeps ticks inspector1) ''00000000'' = Some [t0 + Second] \<and>
   nonces_of (sweeps ticks inspector1) ''w1'' ''00000000'' = Some (t0 + Second)"
  by (simp add: ticks_def sweepInterval_def windowSpan_def greylistTimeout_def inspector1_def
      LaunchInspector_def env1_def cleanGreylist_def nonces_of_def scenario_defs)

end
